theory Spec2Isabelle
  imports Complex_Main
begin

section \<open>The duty-status scheduler and the day partitioner of legacy/RouteMap.tsx\<close>

text \<open>
  The embedding follows \<^verbatim>\<open>getDist\<close>, \<^verbatim>\<open>getCoordinateAtDistance\<close>,
  \<^verbatim>\<open>generateDutyEvents\<close> and \<^verbatim>\<open>splitEventsIntoDays\<close> of
  \<^verbatim>\<open>src/legacy/RouteMap.tsx\<close>, with the types of \<^verbatim>\<open>types/index.ts\<close>.

  Conventions of the model.
  \<^item> A JavaScript \<^verbatim>\<open>number\<close> is a \<^typ>\<open>real\<close>: arithmetic is exact, there is no
    rounding, no NaN and no infinity. The code computes in IEEE 754 doubles, and the two
    differ wherever a result is not representable: a driving chunk below half a unit in
    the last place of the remaining time leaves the remaining time unchanged,
    \<^verbatim>\<open>Math.cos(Math.PI / 2)\<close> is not 0, and a sum of segment distances depends on the
    order of the additions. The general statements below are therefore of three kinds
    only: they follow the branches the code takes, they relate the events and states of
    one run to each other, or they are about durations that are whole numbers of
    milliseconds. Nothing general is stated about whether a loop returns under positive
    limits, nor about the value of an interpolated position. The concrete runs use time
    values in 2024 and durations for which double arithmetic gives the same events.
  \<^item> A \<^verbatim>\<open>Date\<close> is its time value, an \<^typ>\<open>int\<close> of milliseconds since the epoch
    (UTC). \<^verbatim>\<open>new Date(x)\<close> on a number truncates it to a whole millisecond
    (ECMAScript TimeClip). A \<^verbatim>\<open>Date\<close> holds time values up to \<open>8.64 * 10^15\<close> ms in
    absolute value; beyond that JavaScript gives the invalid date, which is not
    represented. Statements about time values are restricted to that range.
  \<^item> The local time zone of the run is a parameter \<open>tz\<close>: the zone's offset from UTC in
    milliseconds, fixed for the whole run (no daylight-saving change), so that local
    time is UTC time plus \<open>tz\<close>. \<^verbatim>\<open>setHours\<close> works in local time,
    \<^verbatim>\<open>toISOString\<close> in UTC.
  \<^item> A loop that may run forever is a \<^theory_text>\<open>partial_function\<close> into
    \<^typ>\<open>'a option\<close>: \<^term>\<open>None\<close> means the loop does not return.
\<close>

subsection \<open>Data model (types/index.ts)\<close>

datatype DutyStatus = off_duty | sleeper_berth | driving | on_duty_not_driving

text \<open>Objects carrying \<^verbatim>\<open>lat\<close> and \<^verbatim>\<open>lng\<close> share the two fields.\<close>

record LatLng =
  lat :: real
  lng :: real

record Location = LatLng +
  address :: string

record StatusFlags =
  countsTowardDriving :: bool
  countsTowardOnDuty :: bool
  countsTowardDutyWindow :: bool
  qualifiesAsRest :: bool

record ShiftRules =
  minOffDutyBeforeShiftHours :: real
  maxDrivingHours :: real
  maxDutyWindowHours :: real
  allowDrivingAfterDutyWindow :: bool

record BreakRules =
  requiredAfterDrivingHours :: real
  breakDurationMinutes :: real
  qualifyingStatuses :: "DutyStatus list"
  mustBeContinuous :: bool

text \<open>
  Of \<^verbatim>\<open>HosProfileConfig\<close> the groups \<^verbatim>\<open>cycleRules\<close>, \<^verbatim>\<open>sleeperBerthRules\<close>,
  \<^verbatim>\<open>exceptions\<close>, \<^verbatim>\<open>timeRules\<close> and \<^verbatim>\<open>alerts\<close> are never read by the
  functions embedded here; they live in the record's extension.
\<close>

record HosProfileConfig =
  profileId :: string
  label :: string
  dutyStatuses :: "DutyStatus \<Rightarrow> StatusFlags"
  shiftRules :: ShiftRules
  breakRules :: BreakRules

record RoutePoints =
  origin :: Location
  pickup :: Location
  dropoff :: Location

record RouteResult =
  distanceMiles :: real
  durationHours :: real
  polyline :: "(real \<times> real) list"
  instructions :: "string list"
  points :: RoutePoints

text \<open>
  The remarks of an event are one of twelve texts, two of them built from a number of the
  profile by a template literal. The constructors stand for the texts:
  \<^verbatim>\<open>"Off Duty - Continuous Rest Period"\<close>, \<^verbatim>\<open>"Pre-trip Inspection"\<close>,
  \<^verbatim>\<open>`${breakDurationMinutes}-min Break`\<close>, \<^verbatim>\<open>"Driving to Pickup Location"\<close>,
  \<^verbatim>\<open>"Pickup (Loading)"\<close>, \<^verbatim>\<open>"Fueling Stop"\<close>,
  \<^verbatim>\<open>`${minOffDutyBeforeShiftHours}h Daily Rest`\<close>, \<^verbatim>\<open>"Duty Window Rest"\<close>,
  \<^verbatim>\<open>"Driving to Delivery Location"\<close>, \<^verbatim>\<open>"Dropoff (Unloading)"\<close>,
  \<^verbatim>\<open>"Post-trip Inspection"\<close>, \<^verbatim>\<open>"Off Duty - End of Day Rest Period"\<close>.
\<close>

datatype Remarks =
    Off_Duty_Continuous_Rest_Period
  | Pre_trip_Inspection
  | min_Break real
  | Driving_to_Pickup_Location
  | Pickup_Loading
  | Fueling_Stop
  | h_Daily_Rest real
  | Duty_Window_Rest
  | Driving_to_Delivery_Location
  | Dropoff_Unloading
  | Post_trip_Inspection
  | Off_Duty_End_of_Day_Rest_Period

text \<open>\<^verbatim>\<open>remarks.includes('Fueling Stop')\<close> and \<^verbatim>\<open>remarks.includes('Break')\<close> on those texts.\<close>

fun includes_Fueling_Stop :: "Remarks \<Rightarrow> bool" where
  "includes_Fueling_Stop Fueling_Stop = True"
| "includes_Fueling_Stop _ = False"

fun includes_Break :: "Remarks \<Rightarrow> bool" where
  "includes_Break (min_Break m) = True"
| "includes_Break _ = False"

record DutyEvent = LatLng +
  status :: DutyStatus
  start :: int
  end' :: int
  location :: string
  remarks :: Remarks

record DailyLog =
  date :: int
  events :: "DutyEvent list"
  totals :: "DutyStatus \<Rightarrow> real"
  totalMiles :: real

subsection \<open>Dates\<close>

definition msPerDay :: int where
  "msPerDay = 24 * 60 * 60 * 1000"

text \<open>\<^verbatim>\<open>new Date(x)\<close> for a number \<open>x\<close>: the time value truncated towards zero.\<close>

definition newDate :: "real \<Rightarrow> int" where
  "newDate x = (if 0 \<le> x then \<lfloor>x\<rfloor> else \<lceil>x\<rceil>)"

text \<open>\<^verbatim>\<open>d.setHours(0, 0, 0, 0)\<close>: midnight of the local day of \<open>d\<close>.\<close>

definition setHours_0_0_0_0 :: "int \<Rightarrow> int \<Rightarrow> int" where
  "setHours_0_0_0_0 tz d = d - (d + tz) mod msPerDay"

text \<open>\<^verbatim>\<open>d.setHours(23, 59, 59, 999)\<close>: the last millisecond of the local day of \<open>d\<close>.\<close>

definition setHours_23_59_59_999 :: "int \<Rightarrow> int \<Rightarrow> int" where
  "setHours_23_59_59_999 tz d = setHours_0_0_0_0 tz d + (msPerDay - 1)"

text \<open>
  \<^verbatim>\<open>d.toISOString().split('T')[0]\<close>: the UTC calendar date of \<open>d\<close>, here the number of
  the UTC day since the epoch. For the years 0000 to 9999 the text \<^verbatim>\<open>YYYY-MM-DD\<close>
  determines the day number and \<^verbatim>\<open>localeCompare\<close> orders the texts as \<open>\<le>\<close> orders
  the numbers.
\<close>

definition toISODate :: "int \<Rightarrow> int" where
  "toISODate d = d div msPerDay"

text \<open>The first local midnight after a time value.\<close>

definition nextMidnight :: "int \<Rightarrow> int \<Rightarrow> int" where
  "nextMidnight tz d = setHours_0_0_0_0 tz d + msPerDay"

subsection \<open>getDist\<close>

text \<open>\<^verbatim>\<open>Math.atan2(y, x)\<close>.\<close>

definition atan2 :: "real \<Rightarrow> real \<Rightarrow> real" where
  "atan2 y x =
     (if 0 < x then arctan (y / x)
      else if x < 0 then (if 0 \<le> y then arctan (y / x) + pi else arctan (y / x) - pi)
      else if 0 < y then pi / 2
      else if y < 0 then - (pi / 2)
      else 0)"

definition getDist :: "real \<times> real \<Rightarrow> real \<times> real \<Rightarrow> real" where
  "getDist p1 p2 =
     (let R = 3958.8;
          dLat = (fst p2 - fst p1) * pi / 180;
          dLng = (snd p2 - snd p1) * pi / 180;
          a = sin (dLat / 2) * sin (dLat / 2) +
              cos (fst p1 * pi / 180) * cos (fst p2 * pi / 180) *
              sin (dLng / 2) * sin (dLng / 2);
          c = 2 * atan2 (sqrt a) (sqrt (1 - a))
      in R * c)"

subsection \<open>getCoordinateAtDistance\<close>

text \<open>
  The \<^verbatim>\<open>for\<close> loop over the segments, from segment \<open>i\<close> on: the list is the polyline
  from vertex \<open>i\<close>. With one vertex left the loop is over and the last vertex is the
  result.
\<close>

fun segments :: "real \<Rightarrow> real \<Rightarrow> (real \<times> real) list \<Rightarrow> LatLng" where
  "segments targetDist accumulatedDist (p1 # p2 # ps) =
     (let segmentDist = getDist p1 p2 in
      if accumulatedDist + segmentDist \<ge> targetDist then
        (let remaining = targetDist - accumulatedDist;
             ratio = remaining / segmentDist
         in \<lparr>lat = fst p1 + (fst p2 - fst p1) * ratio,
             lng = snd p1 + (snd p2 - snd p1) * ratio\<rparr>)
      else segments targetDist (accumulatedDist + segmentDist) (p2 # ps))"
| "segments targetDist accumulatedDist [p] = \<lparr>lat = fst p, lng = snd p\<rparr>"
| "segments targetDist accumulatedDist [] = \<lparr>lat = 0, lng = 0\<rparr>"

definition getCoordinateAtDistance :: "real \<Rightarrow> (real \<times> real) list \<Rightarrow> LatLng" where
  "getCoordinateAtDistance targetDist pl =
     (if length pl = 0 then \<lparr>lat = 0, lng = 0\<rparr>
      else if targetDist \<le> 0 then \<lparr>lat = fst (pl ! 0), lng = snd (pl ! 0)\<rparr>
      else segments targetDist 0 pl)"

subsection \<open>generateDutyEvents\<close>

text \<open>
  The local variables of \<^verbatim>\<open>generateDutyEvents\<close> that change during the run. The array
  \<^verbatim>\<open>events\<close> is the field \<open>emitted\<close> (the name \<open>events\<close> is the field of a daily
  log).
\<close>

record sched =
  emitted :: "DutyEvent list"
  currentTime :: int
  currentDistance :: real
  originToPickupRemaining :: real
  remainingDrivingHours :: real
  shiftDrivingHours :: real
  shiftDutyWindowHours :: real
  drivingSinceLastBreakHours :: real
  milesSinceFuel :: real

definition addEvent ::
  "RouteResult \<Rightarrow> real \<Rightarrow> DutyStatus \<Rightarrow> real \<Rightarrow> string \<Rightarrow> Remarks \<Rightarrow> sched \<Rightarrow> sched" where
  "addEvent route averageSpeed st hours loc rem s =
     (let end = newDate (real_of_int (currentTime s) + hours * 60 * 60 * 1000);
          coords = getCoordinateAtDistance (currentDistance s) (polyline route)
      in s\<lparr>emitted := emitted s @
               [\<lparr>lat = lat coords, lng = lng coords, status = st, start = currentTime s,
                 end' = end, location = loc, remarks = rem\<rparr>],
            currentDistance :=
              (if st = driving then currentDistance s + hours * averageSpeed
               else if st = on_duty_not_driving \<and> includes_Fueling_Stop rem
                 then currentDistance s + 5
               else if st = off_duty \<and> includes_Break rem then currentDistance s + 3
               else if st = sleeper_berth then currentDistance s + 10
               else currentDistance s),
            currentTime := end\<rparr>)"

definition fuelIntervalMiles :: real where
  "fuelIntervalMiles = 1000"

definition originToPickupDist :: "RouteResult \<Rightarrow> real" where
  "originToPickupDist route =
     getDist (lat (origin (points route)), lng (origin (points route)))
             (lat (pickup (points route)), lng (pickup (points route)))"

definition pickupToDropoffDist :: "RouteResult \<Rightarrow> real" where
  "pickupToDropoffDist route =
     getDist (lat (pickup (points route)), lng (pickup (points route)))
             (lat (dropoff (points route)), lng (dropoff (points route)))"

definition totalDistance :: "RouteResult \<Rightarrow> real" where
  "totalDistance route = originToPickupDist route + pickupToDropoffDist route"

definition originToPickupHours :: "RouteResult \<Rightarrow> real" where
  "originToPickupHours route =
     (if totalDistance route > 0
      then (originToPickupDist route / totalDistance route) * durationHours route else 0)"

definition pickupToDropoffHours :: "RouteResult \<Rightarrow> real" where
  "pickupToDropoffHours route =
     (if totalDistance route > 0
      then (pickupToDropoffDist route / totalDistance route) * durationHours route
      else durationHours route)"

text \<open>
  From the start of the function to the entry of the first driving loop: the pad from
  local midnight to the start time and the pre-trip inspection.
\<close>

definition initial :: "int \<Rightarrow> RouteResult \<Rightarrow> int \<Rightarrow> sched" where
  "initial tz route startTime =
     \<lparr>emitted = [], currentTime = setHours_0_0_0_0 tz startTime, currentDistance = 0,
      originToPickupRemaining = originToPickupHours route,
      remainingDrivingHours = durationHours route,
      shiftDrivingHours = 0, shiftDutyWindowHours = 0, drivingSinceLastBreakHours = 0,
      milesSinceFuel = 0\<rparr>"

definition midnightPad :: "int \<Rightarrow> RouteResult \<Rightarrow> int \<Rightarrow> real \<Rightarrow> sched" where
  "midnightPad tz route startTime averageSpeed =
     (let startOfDayOne = setHours_0_0_0_0 tz startTime in
      if startTime > startOfDayOne then
        addEvent route averageSpeed off_duty
          (real_of_int (startTime - startOfDayOne) / (1000 * 60 * 60))
          ''Home Terminal'' Off_Duty_Continuous_Rest_Period (initial tz route startTime)
      else initial tz route startTime)"

definition preTrip :: "int \<Rightarrow> RouteResult \<Rightarrow> int \<Rightarrow> real \<Rightarrow> sched" where
  "preTrip tz route startTime averageSpeed =
     (let s = addEvent route averageSpeed on_duty_not_driving 0.25
                (address (origin (points route))) Pre_trip_Inspection
                (midnightPad tz route startTime averageSpeed)
      in s\<lparr>shiftDutyWindowHours := shiftDutyWindowHours s + 0.25\<rparr>)"

text \<open>The branches of the first driving loop (origin to pickup).\<close>

definition takeBreak :: "RouteResult \<Rightarrow> HosProfileConfig \<Rightarrow> real \<Rightarrow> sched \<Rightarrow> sched" where
  "takeBreak route config averageSpeed s =
     (let breakDur = breakDurationMinutes (breakRules config) / 60;
          s1 = addEvent route averageSpeed off_duty breakDur ''Rest Area''
                 (min_Break (breakDurationMinutes (breakRules config))) s
      in s1\<lparr>shiftDutyWindowHours := shiftDutyWindowHours s1 + breakDur,
             drivingSinceLastBreakHours := 0\<rparr>)"

definition maxDrivingToPickup :: "HosProfileConfig \<Rightarrow> sched \<Rightarrow> real" where
  "maxDrivingToPickup config s =
     min (originToPickupRemaining s)
      (min (maxDrivingHours (shiftRules config) - shiftDrivingHours s)
        (min (maxDutyWindowHours (shiftRules config) - shiftDutyWindowHours s)
             (requiredAfterDrivingHours (breakRules config) - drivingSinceLastBreakHours s)))"

definition driveToPickup :: "RouteResult \<Rightarrow> real \<Rightarrow> real \<Rightarrow> sched \<Rightarrow> sched" where
  "driveToPickup route averageSpeed maxDrivingThisSegment s =
     (let s1 = addEvent route averageSpeed driving maxDrivingThisSegment
                 ''En Route to Pickup'' Driving_to_Pickup_Location s
      in s1\<lparr>originToPickupRemaining := originToPickupRemaining s1 - maxDrivingThisSegment,
             remainingDrivingHours := remainingDrivingHours s1 - maxDrivingThisSegment,
             shiftDrivingHours := shiftDrivingHours s1 + maxDrivingThisSegment,
             shiftDutyWindowHours := shiftDutyWindowHours s1 + maxDrivingThisSegment,
             drivingSinceLastBreakHours := drivingSinceLastBreakHours s1 + maxDrivingThisSegment,
             milesSinceFuel := milesSinceFuel s1 + maxDrivingThisSegment * averageSpeed\<rparr>)"

partial_function (option) toPickupLoop ::
  "RouteResult \<Rightarrow> HosProfileConfig \<Rightarrow> real \<Rightarrow> sched \<Rightarrow> sched option" where
  "toPickupLoop route config averageSpeed s =
     (if originToPickupRemaining s > 0 then
        if drivingSinceLastBreakHours s \<ge> requiredAfterDrivingHours (breakRules config)
        then toPickupLoop route config averageSpeed (takeBreak route config averageSpeed s)
        else if maxDrivingToPickup config s \<le> 0 then Some s
        else toPickupLoop route config averageSpeed
               (driveToPickup route averageSpeed (maxDrivingToPickup config s) s)
      else Some s)"

definition toPickup ::
  "RouteResult \<Rightarrow> HosProfileConfig \<Rightarrow> real \<Rightarrow> sched \<Rightarrow> sched option" where
  "toPickup route config averageSpeed s =
     (if originToPickupHours route > 0 then toPickupLoop route config averageSpeed s
      else Some s)"

definition pickupOperation :: "RouteResult \<Rightarrow> real \<Rightarrow> sched \<Rightarrow> sched" where
  "pickupOperation route averageSpeed s =
     (let s1 = addEvent route averageSpeed on_duty_not_driving 1.0
                 (address (pickup (points route))) Pickup_Loading s
      in s1\<lparr>shiftDutyWindowHours := shiftDutyWindowHours s1 + 1.0,
             remainingDrivingHours := pickupToDropoffHours route\<rparr>)"

text \<open>The main driving loop (pickup to dropoff): one iteration, then the loop.\<close>

definition fuelCheck :: "RouteResult \<Rightarrow> real \<Rightarrow> sched \<Rightarrow> sched" where
  "fuelCheck route averageSpeed s =
     (if milesSinceFuel s \<ge> fuelIntervalMiles then
        (let s1 = addEvent route averageSpeed on_duty_not_driving 0.5 ''Fuel Station''
                    Fueling_Stop s
         in s1\<lparr>shiftDutyWindowHours := shiftDutyWindowHours s1 + 0.5, milesSinceFuel := 0\<rparr>)
      else s)"

definition rest ::
  "RouteResult \<Rightarrow> HosProfileConfig \<Rightarrow> real \<Rightarrow> string \<Rightarrow> Remarks \<Rightarrow> sched \<Rightarrow> sched" where
  "rest route config averageSpeed loc rem s =
     (let s1 = addEvent route averageSpeed sleeper_berth
                 (minOffDutyBeforeShiftHours (shiftRules config)) loc rem s
      in s1\<lparr>shiftDrivingHours := 0, shiftDutyWindowHours := 0,
             drivingSinceLastBreakHours := 0\<rparr>)"

definition maxDrivingToDropoff :: "HosProfileConfig \<Rightarrow> sched \<Rightarrow> real" where
  "maxDrivingToDropoff config s =
     min (remainingDrivingHours s)
      (min (maxDrivingHours (shiftRules config) - shiftDrivingHours s)
        (min (maxDutyWindowHours (shiftRules config) - shiftDutyWindowHours s)
             (requiredAfterDrivingHours (breakRules config) - drivingSinceLastBreakHours s)))"

definition driveToDropoff :: "RouteResult \<Rightarrow> real \<Rightarrow> real \<Rightarrow> sched \<Rightarrow> sched" where
  "driveToDropoff route averageSpeed maxDrivingThisSegment s =
     (let s1 = addEvent route averageSpeed driving maxDrivingThisSegment
                 ''En Route to Dropoff'' Driving_to_Delivery_Location s
      in s1\<lparr>remainingDrivingHours := remainingDrivingHours s1 - maxDrivingThisSegment,
             shiftDrivingHours := shiftDrivingHours s1 + maxDrivingThisSegment,
             shiftDutyWindowHours := shiftDutyWindowHours s1 + maxDrivingThisSegment,
             drivingSinceLastBreakHours := drivingSinceLastBreakHours s1 + maxDrivingThisSegment,
             milesSinceFuel := milesSinceFuel s1 + maxDrivingThisSegment * averageSpeed\<rparr>)"

definition atDrivingLimit :: "HosProfileConfig \<Rightarrow> sched \<Rightarrow> bool" where
  "atDrivingLimit config s \<longleftrightarrow> shiftDrivingHours s \<ge> maxDrivingHours (shiftRules config)"

definition atDutyWindowLimit :: "HosProfileConfig \<Rightarrow> sched \<Rightarrow> bool" where
  "atDutyWindowLimit config s \<longleftrightarrow>
     shiftDutyWindowHours s \<ge> maxDutyWindowHours (shiftRules config)"

definition toDropoffStep :: "RouteResult \<Rightarrow> HosProfileConfig \<Rightarrow> real \<Rightarrow> sched \<Rightarrow> sched" where
  "toDropoffStep route config averageSpeed s0 =
     (let s = fuelCheck route averageSpeed s0 in
      if atDrivingLimit config s \<or> atDutyWindowLimit config s then
        rest route config averageSpeed ''Truck Stop''
          (h_Daily_Rest (minOffDutyBeforeShiftHours (shiftRules config))) s
      else if drivingSinceLastBreakHours s \<ge> requiredAfterDrivingHours (breakRules config)
        then takeBreak route config averageSpeed s
      else if maxDrivingToDropoff config s \<le> 0 then
        rest route config averageSpeed ''Rest Area'' Duty_Window_Rest s
      else driveToDropoff route averageSpeed (maxDrivingToDropoff config s) s)"

partial_function (option) toDropoffLoop ::
  "RouteResult \<Rightarrow> HosProfileConfig \<Rightarrow> real \<Rightarrow> sched \<Rightarrow> sched option" where
  "toDropoffLoop route config averageSpeed s =
     (if remainingDrivingHours s > 0
      then toDropoffLoop route config averageSpeed (toDropoffStep route config averageSpeed s)
      else Some s)"

text \<open>From the exit of the main loop to the return: dropoff, post-trip, end-of-day pad.\<close>

definition dropoffOperation :: "RouteResult \<Rightarrow> real \<Rightarrow> sched \<Rightarrow> sched" where
  "dropoffOperation route averageSpeed s =
     (let s1 = addEvent route averageSpeed on_duty_not_driving 1.0
                 (address (dropoff (points route))) Dropoff_Unloading s
      in s1\<lparr>shiftDutyWindowHours := shiftDutyWindowHours s1 + 1.0\<rparr>)"

definition postTrip :: "RouteResult \<Rightarrow> real \<Rightarrow> sched \<Rightarrow> sched" where
  "postTrip route averageSpeed s =
     addEvent route averageSpeed on_duty_not_driving 0.25
       (address (dropoff (points route))) Post_trip_Inspection s"

definition endOfDayPad :: "int \<Rightarrow> RouteResult \<Rightarrow> real \<Rightarrow> sched \<Rightarrow> sched" where
  "endOfDayPad tz route averageSpeed s =
     (let endOfLastDay = setHours_23_59_59_999 tz (currentTime s) in
      if endOfLastDay > currentTime s then
        addEvent route averageSpeed off_duty
          (real_of_int (endOfLastDay - currentTime s) / (1000 * 60 * 60))
          ''Home Terminal'' Off_Duty_End_of_Day_Rest_Period s
      else s)"

definition generateDutyEvents ::
  "int \<Rightarrow> RouteResult \<Rightarrow> int \<Rightarrow> HosProfileConfig \<Rightarrow> real \<Rightarrow> DutyEvent list option" where
  "generateDutyEvents tz route startTime config averageSpeed =
     (case toPickup route config averageSpeed (preTrip tz route startTime averageSpeed) of
        None \<Rightarrow> None
      | Some s2 \<Rightarrow>
          (case toDropoffLoop route config averageSpeed (pickupOperation route averageSpeed s2) of
             None \<Rightarrow> None
           | Some s4 \<Rightarrow>
               Some (emitted (endOfDayPad tz route averageSpeed
                       (postTrip route averageSpeed
                          (dropoffOperation route averageSpeed s4))))))"

subsection \<open>splitEventsIntoDays\<close>

text \<open>
  \<^verbatim>\<open>dailyLogs\<close> is an object with the date texts as keys: a list of the keys with
  their logs, in the order of creation.
\<close>

type_synonym dailyLogs = "(int \<times> DailyLog) list"

definition newLog :: "int \<Rightarrow> DailyLog" where
  "newLog dateKey = \<lparr>date = dateKey, events = [], totals = (\<lambda>st. 0), totalMiles = 0\<rparr>"

definition ensureLog :: "int \<Rightarrow> dailyLogs \<Rightarrow> dailyLogs" where
  "ensureLog dateKey logs =
     (if map_of logs dateKey = None then logs @ [(dateKey, newLog dateKey)] else logs)"

fun updateLog :: "int \<Rightarrow> (DailyLog \<Rightarrow> DailyLog) \<Rightarrow> dailyLogs \<Rightarrow> dailyLogs" where
  "updateLog dateKey f [] = []"
| "updateLog dateKey f ((k, l) # logs) =
     (if k = dateKey then (k, f l) # logs else (k, l) # updateLog dateKey f logs)"

text \<open>The effect of one pass of the \<^verbatim>\<open>while\<close> body on \<^verbatim>\<open>dailyLogs\<close>.\<close>

definition addSegment ::
  "real \<Rightarrow> DutyEvent \<Rightarrow> int \<Rightarrow> int \<Rightarrow> dailyLogs \<Rightarrow> dailyLogs" where
  "addSegment averageSpeed event current segmentEnd logs =
     (let dateKey = toISODate current;
          durationHours = real_of_int (segmentEnd - current) / (1000 * 60 * 60)
      in updateLog dateKey
           (\<lambda>l. l\<lparr>events := events l @ [event\<lparr>start := current, end' := segmentEnd\<rparr>],
                  totals := (totals l)(status event := totals l (status event) + durationHours),
                  totalMiles := (if status event = driving
                                 then totalMiles l + durationHours * averageSpeed
                                 else totalMiles l)\<rparr>)
           (ensureLog dateKey logs))"

definition segmentEnd :: "int \<Rightarrow> int \<Rightarrow> int \<Rightarrow> int" where
  "segmentEnd tz current end =
     (let startOfDay = setHours_0_0_0_0 tz current;
          nextDay = startOfDay + msPerDay
      in if end < nextDay then end else nextDay)"

function splitEvent ::
  "int \<Rightarrow> real \<Rightarrow> DutyEvent \<Rightarrow> int \<Rightarrow> dailyLogs \<Rightarrow> dailyLogs" where
  "splitEvent tz averageSpeed event current logs =
     (if current < end' event then
        splitEvent tz averageSpeed event (segmentEnd tz current (end' event))
          (addSegment averageSpeed event current (segmentEnd tz current (end' event)) logs)
      else logs)"
  by pat_completeness auto

lemma mod_msPerDay_bounds: "0 \<le> x mod msPerDay \<and> x mod msPerDay < msPerDay"
  by (simp add: msPerDay_def)

lemma segmentEnd_gt: "current < e \<Longrightarrow> current < segmentEnd tz current e"
  using mod_msPerDay_bounds [of "current + tz"]
  by (simp add: segmentEnd_def setHours_0_0_0_0_def Let_def)

lemma segmentEnd_le: "segmentEnd tz current e \<le> e"
  by (simp add: segmentEnd_def Let_def)

termination splitEvent
proof (relation "measure (\<lambda>(tz, averageSpeed, event, current, logs). nat (end' event - current))")
  show "wf (measure (\<lambda>(tz, averageSpeed, event, current, logs). nat (end' event - current)))"
    by simp
next
  fix tz :: int and averageSpeed :: real and event :: DutyEvent and current :: int
    and logs :: dailyLogs
  assume "current < end' event"
  then show "((tz, averageSpeed, event, segmentEnd tz current (end' event),
               addSegment averageSpeed event current (segmentEnd tz current (end' event)) logs),
              (tz, averageSpeed, event, current, logs))
             \<in> measure (\<lambda>(tz, averageSpeed, event, current, logs). nat (end' event - current))"
    using segmentEnd_gt [of current "end' event" tz] by simp
qed

definition splitEventsIntoDays :: "int \<Rightarrow> DutyEvent list \<Rightarrow> real \<Rightarrow> DailyLog list" where
  "splitEventsIntoDays tz evs averageSpeed =
     sort_key date
       (map snd (fold (\<lambda>event. splitEvent tz averageSpeed event (start event)) evs []))"

subsection \<open>Readings of the results\<close>

text \<open>\<^verbatim>\<open>sum(totals.values())\<close> of a daily log.\<close>

definition sumTotals :: "DailyLog \<Rightarrow> real" where
  "sumTotals l =
     totals l off_duty + totals l sleeper_berth + totals l driving + totals l on_duty_not_driving"

text \<open>
  The local calendar day of a time value (its number since the epoch) and the local
  clock reading, in milliseconds since local midnight; \<open>clock h m\<close> is the reading
  \<open>h:m:00.000\<close>.
\<close>

definition localDay :: "int \<Rightarrow> int \<Rightarrow> int" where
  "localDay tz d = (d + tz) div msPerDay"

definition localTime :: "int \<Rightarrow> int \<Rightarrow> int" where
  "localTime tz d = (d + tz) mod msPerDay"

definition clock :: "int \<Rightarrow> int \<Rightarrow> int" where
  "clock h m = (h * 60 + m) * 60000"

text \<open>An event as the log shows it: status, local day and clock of the start, clock of the
  end, remarks.\<close>

definition shown :: "int \<Rightarrow> DutyEvent \<Rightarrow> DutyStatus \<times> int \<times> int \<times> int \<times> Remarks" where
  "shown tz e =
     (status e, localDay tz (start e), localTime tz (start e), localTime tz (end' e), remarks e)"

text \<open>A daily log as the grid shows it: date, number of events and the four totals in the
  order off duty, sleeper berth, driving, on duty.\<close>

definition summary :: "DailyLog \<Rightarrow> int \<times> nat \<times> real \<times> real \<times> real \<times> real" where
  "summary l =
     (date l, length (events l), totals l off_duty, totals l sleeper_berth, totals l driving,
      totals l on_duty_not_driving)"

text \<open>The events before the pickup: none is a rest, none is the pickup.\<close>

definition beforePickup :: "DutyEvent list \<Rightarrow> bool" where
  "beforePickup evs \<longleftrightarrow>
     list_all (\<lambda>e. status e \<noteq> sleeper_berth \<and> remarks e \<noteq> Pickup_Loading) evs"

definition pickupReached :: "DutyEvent list \<Rightarrow> bool" where
  "pickupReached evs \<longleftrightarrow>
     (\<exists>pre p post. evs = pre @ p # post \<and> beforePickup pre \<and> remarks p = Pickup_Loading)"



text \<open>
  A list of events is a chain from \<open>t0\<close> to \<open>t\<close> when the first starts at \<open>t0\<close>, each
  starts where the one before ends, and the last ends at \<open>t\<close>. A state is gapless when
  its events are a chain up to its current time, and forward when no event ends before
  it starts.
\<close>

fun chain :: "int \<Rightarrow> DutyEvent list \<Rightarrow> int \<Rightarrow> bool" where
  "chain t0 [] t \<longleftrightarrow> t = t0"
| "chain t0 (e # es) t \<longleftrightarrow> start e = t0 \<and> chain (end' e) es t"

definition gapless :: "int \<Rightarrow> sched \<Rightarrow> bool" where
  "gapless t0 s \<longleftrightarrow> chain t0 (emitted s) (currentTime s)"

definition forward :: "sched \<Rightarrow> bool" where
  "forward s \<longleftrightarrow> list_all (\<lambda>e. start e \<le> end' e) (emitted s)"



text \<open>No fuel is due and no event is a fueling stop.\<close>

definition noFuelStop :: "sched \<Rightarrow> bool" where
  "noFuelStop s \<longleftrightarrow>
     milesSinceFuel s \<le> 0 \<and> list_all (\<lambda>e. remarks e \<noteq> Fueling_Stop) (emitted s)"

text \<open>
  The four events every trip has, by their remarks: pre-trip inspection, pickup, dropoff
  and post-trip inspection.
\<close>

fun milestone :: "Remarks \<Rightarrow> bool" where
  "milestone Pre_trip_Inspection = True"
| "milestone Pickup_Loading = True"
| "milestone Dropoff_Unloading = True"
| "milestone Post_trip_Inspection = True"
| "milestone _ = False"

definition milestones :: "DutyEvent list \<Rightarrow> Remarks list" where
  "milestones evs = filter milestone (map remarks evs)"

text \<open>
  The states of a run of \<^verbatim>\<open>generateDutyEvents\<close> at the head of a pass of the main
  loop (line 643): the state after the pickup operation, and the state one pass after a
  head at which driving time remains.
\<close>

inductive mainLoopHead ::
  "int \<Rightarrow> RouteResult \<Rightarrow> int \<Rightarrow> HosProfileConfig \<Rightarrow> real \<Rightarrow> sched \<Rightarrow> bool"
  for tz route startTime config averageSpeed where
    entry: "toPickup route config averageSpeed (preTrip tz route startTime averageSpeed) = Some s2 \<Longrightarrow>
            mainLoopHead tz route startTime config averageSpeed
              (pickupOperation route averageSpeed s2)"
  | pass: "mainLoopHead tz route startTime config averageSpeed s \<Longrightarrow>
           remainingDrivingHours s > 0 \<Longrightarrow>
           mainLoopHead tz route startTime config averageSpeed
             (toDropoffStep route config averageSpeed s)"

code_pred (modes: i \<Rightarrow> i \<Rightarrow> i \<Rightarrow> i \<Rightarrow> i \<Rightarrow> o \<Rightarrow> bool) mainLoopHead .

text \<open>
  The states of a run at the head of a pass of the first loop (line 607): the state after
  the pre-trip inspection when the leg takes time, and the state after a pass that took
  the break or drove (a pass that finds nothing drivable leaves the loop).
\<close>

inductive pickupLoopHead ::
  "int \<Rightarrow> RouteResult \<Rightarrow> int \<Rightarrow> HosProfileConfig \<Rightarrow> real \<Rightarrow> sched \<Rightarrow> bool"
  for tz route startTime config averageSpeed where
    entry: "originToPickupHours route > 0 \<Longrightarrow>
            pickupLoopHead tz route startTime config averageSpeed
              (preTrip tz route startTime averageSpeed)"
  | after_break:
      "pickupLoopHead tz route startTime config averageSpeed s \<Longrightarrow>
       originToPickupRemaining s > 0 \<Longrightarrow>
       drivingSinceLastBreakHours s \<ge> requiredAfterDrivingHours (breakRules config) \<Longrightarrow>
       pickupLoopHead tz route startTime config averageSpeed
         (takeBreak route config averageSpeed s)"
  | after_drive:
      "pickupLoopHead tz route startTime config averageSpeed s \<Longrightarrow>
       originToPickupRemaining s > 0 \<Longrightarrow>
       \<not> drivingSinceLastBreakHours s \<ge> requiredAfterDrivingHours (breakRules config) \<Longrightarrow>
       \<not> maxDrivingToPickup config s \<le> 0 \<Longrightarrow>
       pickupLoopHead tz route startTime config averageSpeed
         (driveToPickup route averageSpeed (maxDrivingToPickup config s) s)"

code_pred (modes: i \<Rightarrow> i \<Rightarrow> i \<Rightarrow> i \<Rightarrow> i \<Rightarrow> o \<Rightarrow> bool) pickupLoopHead .

subsection \<open>Concrete inputs\<close>

text \<open>The profile of \<^verbatim>\<open>HOS_PROFILE_CONFIG_PROPERTY_CARRYING_US_FMCSA\<close>.\<close>

definition HOS_PROFILE_CONFIG_PROPERTY_CARRYING_US_FMCSA :: HosProfileConfig where
  "HOS_PROFILE_CONFIG_PROPERTY_CARRYING_US_FMCSA =
     \<lparr>profileId = ''us_fmcsa_property_carrying_interstate'',
      label = ''US FMCSA - Property-carrying (Interstate)'',
      dutyStatuses = (\<lambda>st. case st of
          off_duty \<Rightarrow> \<lparr>countsTowardDriving = False, countsTowardOnDuty = False,
                        countsTowardDutyWindow = False, qualifiesAsRest = True\<rparr>
        | sleeper_berth \<Rightarrow> \<lparr>countsTowardDriving = False, countsTowardOnDuty = False,
                        countsTowardDutyWindow = False, qualifiesAsRest = True\<rparr>
        | driving \<Rightarrow> \<lparr>countsTowardDriving = True, countsTowardOnDuty = True,
                        countsTowardDutyWindow = True, qualifiesAsRest = False\<rparr>
        | on_duty_not_driving \<Rightarrow> \<lparr>countsTowardDriving = False, countsTowardOnDuty = True,
                        countsTowardDutyWindow = True, qualifiesAsRest = False\<rparr>),
      shiftRules = \<lparr>minOffDutyBeforeShiftHours = 10, maxDrivingHours = 11,
                    maxDutyWindowHours = 14, allowDrivingAfterDutyWindow = False\<rparr>,
      breakRules = \<lparr>requiredAfterDrivingHours = 8, breakDurationMinutes = 30,
                    qualifyingStatuses = [off_duty, sleeper_berth, on_duty_not_driving],
                    mustBeContinuous = True\<rparr>\<rparr>"

text \<open>
  A two-hour trip along the meridian 90 W: two degrees of latitude from the origin to
  the pickup and three from the pickup to the dropoff, so that the legs split 40/60.
  The polyline is empty (every event then carries the position \<open>(0, 0)\<close>).
\<close>

definition shortTrip :: RouteResult where
  "shortTrip =
     \<lparr>distanceMiles = 100, durationHours = 2, polyline = [], instructions = [],
      points = \<lparr>origin = \<lparr>lat = 30, lng = -90, address = ''Origin''\<rparr>,
                pickup = \<lparr>lat = 32, lng = -90, address = ''Pickup''\<rparr>,
                dropoff = \<lparr>lat = 35, lng = -90, address = ''Dropoff''\<rparr>\<rparr>\<rparr>"

text \<open>The default profile with shifts of half an hour of driving.\<close>

definition halfHourShifts :: HosProfileConfig where
  "halfHourShifts =
     HOS_PROFILE_CONFIG_PROPERTY_CARRYING_US_FMCSA
       \<lparr>shiftRules := \<lparr>minOffDutyBeforeShiftHours = 10, maxDrivingHours = 1 / 2,
                        maxDutyWindowHours = 14, allowDrivingAfterDutyWindow = False\<rparr>\<rparr>"



definition longBreak :: HosProfileConfig where
  "longBreak =
     HOS_PROFILE_CONFIG_PROPERTY_CARRYING_US_FMCSA
       \<lparr>breakRules := \<lparr>requiredAfterDrivingHours = 8, breakDurationMinutes = 360,
                        qualifyingStatuses = [off_duty, sleeper_berth, on_duty_not_driving],
                        mustBeContinuous = True\<rparr>\<rparr>"



text \<open>The time value of 2024-03-01T00:00:00.000Z.\<close>

definition march_1_2024 :: int where
  "march_1_2024 = 1709251200000"

text \<open>The same route with another driving time.\<close>

definition longTrip :: "real \<Rightarrow> RouteResult" where
  "longTrip h = shortTrip\<lparr>durationHours := h\<rparr>"

text \<open>
  The trip of twelve hours under the default profile at 50 mph, started at 08:00 UTC:
  the state after the pickup, and the state three passes of the main loop later (3.2 h
  of driving, the break, 3 h of driving), when eleven hours have been driven in the
  shift.
\<close>

definition afterPickup12 :: sched where
  "afterPickup12 =
     pickupOperation (longTrip 12) 50
       (driveToPickup (longTrip 12) 50 (24 / 5)
          (preTrip 0 (longTrip 12) (march_1_2024 + clock 8 0) 50))"


text \<open>
  The same trip under the profile with the break of six hours: the state one pass of the
  main loop after the pickup (3.2 h of driving), when eight hours have been driven since
  the last break.
\<close>

definition breakDue12 :: sched where
  "breakDue12 = toDropoffStep (longTrip 12) longBreak 50 afterPickup12"



text \<open>
  The ten-hour rest of the twelve-hour trip, from 20:45 on 2024-03-01 to 06:45 on
  2024-03-02 local time: where local time is UTC, and where it is UTC-05:00 (01:45 to
  11:45 UTC on 2024-03-02).
\<close>

definition overnightRest :: DutyEvent where
  "overnightRest =
     \<lparr>lat = 0, lng = 0, status = sleeper_berth, start = 1709325900000, end' = 1709361900000,
      location = ''Truck Stop'', remarks = h_Daily_Rest 10\<rparr>"

definition overnightRestEST :: DutyEvent where
  "overnightRestEST =
     \<lparr>lat = 0, lng = 0, status = sleeper_berth, start = 1709343900000, end' = 1709379900000,
      location = ''Truck Stop'', remarks = h_Daily_Rest 10\<rparr>"

section \<open>Evaluation\<close>

subsection \<open>Unrolling the loops\<close>

declare splitEvent.simps [simp del]

lemma toPickupLoop_exit:
  "\<not> originToPickupRemaining s > 0 \<Longrightarrow> toPickupLoop route config averageSpeed s = Some s"
  by (subst toPickupLoop.simps) simp

lemma toPickupLoop_break:
  "originToPickupRemaining s > 0 \<Longrightarrow>
   drivingSinceLastBreakHours s \<ge> requiredAfterDrivingHours (breakRules config) \<Longrightarrow>
   toPickupLoop route config averageSpeed s =
   toPickupLoop route config averageSpeed (takeBreak route config averageSpeed s)"
  by (subst toPickupLoop.simps) simp

lemma toPickupLoop_stop:
  "originToPickupRemaining s > 0 \<Longrightarrow>
   \<not> drivingSinceLastBreakHours s \<ge> requiredAfterDrivingHours (breakRules config) \<Longrightarrow>
   maxDrivingToPickup config s \<le> 0 \<Longrightarrow>
   toPickupLoop route config averageSpeed s = Some s"
  by (subst toPickupLoop.simps) simp

lemma toPickupLoop_drive:
  "originToPickupRemaining s > 0 \<Longrightarrow>
   \<not> drivingSinceLastBreakHours s \<ge> requiredAfterDrivingHours (breakRules config) \<Longrightarrow>
   \<not> maxDrivingToPickup config s \<le> 0 \<Longrightarrow>
   toPickupLoop route config averageSpeed s =
   toPickupLoop route config averageSpeed
     (driveToPickup route averageSpeed (maxDrivingToPickup config s) s)"
  by (subst toPickupLoop.simps) simp

lemma toDropoffLoop_exit:
  "\<not> remainingDrivingHours s > 0 \<Longrightarrow> toDropoffLoop route config averageSpeed s = Some s"
  by (subst toDropoffLoop.simps) simp

lemma toDropoffLoop_step:
  "remainingDrivingHours s > 0 \<Longrightarrow>
   toDropoffLoop route config averageSpeed s =
   toDropoffLoop route config averageSpeed (toDropoffStep route config averageSpeed s)"
  by (subst toDropoffLoop.simps) simp

lemma splitEvent_done:
  "\<not> current < end' event \<Longrightarrow> splitEvent tz averageSpeed event current logs = logs"
  by (subst splitEvent.simps) simp

lemma splitEvent_step:
  "current < end' event \<Longrightarrow>
   splitEvent tz averageSpeed event current logs =
   splitEvent tz averageSpeed event (segmentEnd tz current (end' event))
     (addSegment averageSpeed event current (segmentEnd tz current (end' event)) logs)"
  by (subst splitEvent.simps) simp

lemmas loop_unroll = toPickupLoop_exit toPickupLoop_break toPickupLoop_stop toPickupLoop_drive
  toDropoffLoop_exit toDropoffLoop_step

lemmas sched_defs = preTrip_def midnightPad_def initial_def addEvent_def newDate_def
  setHours_0_0_0_0_def setHours_23_59_59_999_def msPerDay_def getCoordinateAtDistance_def
  takeBreak_def driveToPickup_def maxDrivingToPickup_def pickupOperation_def fuelCheck_def
  rest_def maxDrivingToDropoff_def driveToDropoff_def atDrivingLimit_def
  atDutyWindowLimit_def toDropoffStep_def dropoffOperation_def postTrip_def endOfDayPad_def
  fuelIntervalMiles_def Let_def

lemmas split_defs = splitEventsIntoDays_def splitEvent_done splitEvent_step segmentEnd_def
  addSegment_def ensureLog_def newLog_def toISODate_def setHours_0_0_0_0_def msPerDay_def
  Let_def

lemmas shown_defs = shown_def summary_def localDay_def localTime_def clock_def msPerDay_def

subsection \<open>What addEvent changes\<close>

lemma addEvent_sel:
  "emitted (addEvent route v st h loc rem s) =
     emitted s @ [\<lparr>lat = lat (getCoordinateAtDistance (currentDistance s) (polyline route)),
                   lng = lng (getCoordinateAtDistance (currentDistance s) (polyline route)),
                   status = st, start = currentTime s,
                   end' = newDate (real_of_int (currentTime s) + h * 60 * 60 * 1000),
                   location = loc, remarks = rem\<rparr>]"
  "currentTime (addEvent route v st h loc rem s) =
     newDate (real_of_int (currentTime s) + h * 60 * 60 * 1000)"
  "originToPickupRemaining (addEvent route v st h loc rem s) = originToPickupRemaining s"
  "remainingDrivingHours (addEvent route v st h loc rem s) = remainingDrivingHours s"
  "shiftDrivingHours (addEvent route v st h loc rem s) = shiftDrivingHours s"
  "shiftDutyWindowHours (addEvent route v st h loc rem s) = shiftDutyWindowHours s"
  "drivingSinceLastBreakHours (addEvent route v st h loc rem s) = drivingSinceLastBreakHours s"
  "milesSinceFuel (addEvent route v st h loc rem s) = milesSinceFuel s"
  by (simp_all add: addEvent_def Let_def)

subsection \<open>What the steps change\<close>

lemma takeBreak_sel:
  "originToPickupRemaining (takeBreak route config v s) = originToPickupRemaining s"
  "remainingDrivingHours (takeBreak route config v s) = remainingDrivingHours s"
  "shiftDrivingHours (takeBreak route config v s) = shiftDrivingHours s"
  "shiftDutyWindowHours (takeBreak route config v s) =
     shiftDutyWindowHours s + breakDurationMinutes (breakRules config) / 60"
  "drivingSinceLastBreakHours (takeBreak route config v s) = 0"
  "milesSinceFuel (takeBreak route config v s) = milesSinceFuel s"
  by (simp_all add: takeBreak_def Let_def addEvent_sel)


lemma fuelCheck_sel:
  "remainingDrivingHours (fuelCheck route v s) = remainingDrivingHours s"
  "shiftDrivingHours (fuelCheck route v s) = shiftDrivingHours s"
  "drivingSinceLastBreakHours (fuelCheck route v s) = drivingSinceLastBreakHours s"
  "shiftDutyWindowHours s \<le> shiftDutyWindowHours (fuelCheck route v s)"
  "milesSinceFuel (fuelCheck route v s) < fuelIntervalMiles"
  "milesSinceFuel s < fuelIntervalMiles \<Longrightarrow> fuelCheck route v s = s"
  by (simp_all add: fuelCheck_def Let_def addEvent_sel fuelIntervalMiles_def)

lemma rest_sel:
  "remainingDrivingHours (rest route config v loc rem s) = remainingDrivingHours s"
  "shiftDrivingHours (rest route config v loc rem s) = 0"
  "shiftDutyWindowHours (rest route config v loc rem s) = 0"
  "drivingSinceLastBreakHours (rest route config v loc rem s) = 0"
  "milesSinceFuel (rest route config v loc rem s) = milesSinceFuel s"
  by (simp_all add: rest_def Let_def addEvent_sel)



lemma takeBreak_emitted:
  "\<exists>e. emitted (takeBreak route config v s) = emitted s @ [e] \<and> status e = off_duty \<and>
       remarks e = min_Break (breakDurationMinutes (breakRules config))"
  by (simp add: takeBreak_def Let_def addEvent_sel)

lemma rest_emitted:
  "\<exists>e. emitted (rest route config v loc rem s) = emitted s @ [e] \<and> status e = sleeper_berth \<and>
       remarks e = rem \<and> location e = loc \<and> start e = currentTime s \<and>
       end' e = newDate (real_of_int (currentTime s) +
                  minOffDutyBeforeShiftHours (shiftRules config) * 60 * 60 * 1000) \<and>
       currentTime (rest route config v loc rem s) = end' e"
  by (simp add: rest_def Let_def addEvent_sel)

lemma break_pass:
  assumes nl: "\<not> atDrivingLimit config (fuelCheck route v s)"
      "\<not> atDutyWindowLimit config (fuelCheck route v s)"
    and due: "requiredAfterDrivingHours (breakRules config)
                \<le> drivingSinceLastBreakHours (fuelCheck route v s)"
  shows "toDropoffStep route config v s = takeBreak route config v (fuelCheck route v s)"
  using assms by (simp add: toDropoffStep_def Let_def)

lemma rest_pass:
  assumes "atDrivingLimit config (fuelCheck route v s) \<or>
           atDutyWindowLimit config (fuelCheck route v s)"
  shows "toDropoffStep route config v s =
         rest route config v ''Truck Stop''
           (h_Daily_Rest (minOffDutyBeforeShiftHours (shiftRules config))) (fuelCheck route v s)"
  using assms by (simp add: toDropoffStep_def Let_def)

subsection \<open>Invariants of the loops\<close>

text \<open>
  What holds before a loop and is kept by each of its branches holds when the loop
  returns.
\<close>

lemma toPickupLoop_rule:
  assumes run: "toPickupLoop route config averageSpeed s = Some s'"
    and init: "P s"
    and brk: "\<And>s. P s \<Longrightarrow> originToPickupRemaining s > 0 \<Longrightarrow>
               drivingSinceLastBreakHours s \<ge> requiredAfterDrivingHours (breakRules config) \<Longrightarrow>
               P (takeBreak route config averageSpeed s)"
    and drv: "\<And>s. P s \<Longrightarrow> originToPickupRemaining s > 0 \<Longrightarrow>
               drivingSinceLastBreakHours s < requiredAfterDrivingHours (breakRules config) \<Longrightarrow>
               0 < maxDrivingToPickup config s \<Longrightarrow>
               P (driveToPickup route averageSpeed (maxDrivingToPickup config s) s)"
  shows "P s'"
proof -
  let ?Q = "\<lambda>r c v t t'. r = route \<and> c = config \<and> v = averageSpeed \<and> P t \<longrightarrow> P t'"
  have "?Q route config averageSpeed s s'"
  proof (rule toPickupLoop.raw_induct [where P = ?Q, OF _ run])
    fix loop r c v t t'
    assume IH: "\<And>r c v t t'. loop r c v t = Some t' \<Longrightarrow> ?Q r c v t t'"
      and eq: "(if originToPickupRemaining t > 0 then
                  if drivingSinceLastBreakHours t \<ge> requiredAfterDrivingHours (breakRules c)
                  then loop r c v (takeBreak r c v t)
                  else if maxDrivingToPickup c t \<le> 0 then Some t
                  else loop r c v (driveToPickup r v (maxDrivingToPickup c t) t)
                else Some t) = Some t'"
    show "?Q r c v t t'"
      using IH eq brk drv by (auto split: if_splits)
  qed
  with init show ?thesis by blast
qed


lemma toDropoffLoop_rule:
  assumes run: "toDropoffLoop route config averageSpeed s = Some s'"
    and init: "P s"
    and step: "\<And>s. P s \<Longrightarrow> remainingDrivingHours s > 0 \<Longrightarrow>
               P (toDropoffStep route config averageSpeed s)"
  shows "P s'"
proof -
  let ?Q = "\<lambda>r c v t t'. r = route \<and> c = config \<and> v = averageSpeed \<and> P t \<longrightarrow> P t'"
  have "?Q route config averageSpeed s s'"
  proof (rule toDropoffLoop.raw_induct [where P = ?Q, OF _ run])
    fix loop r c v t t'
    assume IH: "\<And>r c v t t'. loop r c v t = Some t' \<Longrightarrow> ?Q r c v t t'"
      and eq: "(if remainingDrivingHours t > 0
                then loop r c v (toDropoffStep r c v t) else Some t) = Some t'"
    show "?Q r c v t t'"
      using IH eq step by (auto split: if_splits)
  qed
  with init show ?thesis by blast
qed

lemma generateDutyEvents_parts:
  assumes "generateDutyEvents tz route startTime config v = Some evs"
  obtains s2 s4 where
    "toPickup route config v (preTrip tz route startTime v) = Some s2"
    "toDropoffLoop route config v (pickupOperation route v s2) = Some s4"
    "evs = emitted (endOfDayPad tz route v (postTrip route v (dropoffOperation route v s4)))"
  using assms by (auto simp: generateDutyEvents_def split: option.splits)

lemma toPickup_rule:
  assumes run: "toPickup route config v s = Some s'"
    and init: "P s"
    and brk: "\<And>s. P s \<Longrightarrow> P (takeBreak route config v s)"
    and drv: "\<And>s m. P s \<Longrightarrow> 0 < m \<Longrightarrow> P (driveToPickup route v m s)"
  shows "P s'"
proof (cases "originToPickupHours route > 0")
  case True
  with run have "toPickupLoop route config v s = Some s'" by (simp add: toPickup_def)
  then show ?thesis by (rule toPickupLoop_rule) (auto intro: init brk drv)
next
  case False
  with run init show ?thesis by (simp add: toPickup_def)
qed

subsection \<open>Great-circle distance along a meridian\<close>

lemma atan2_sin_cos:
  assumes "0 \<le> x" "x \<le> pi / 2"
  shows "atan2 (sin x) (cos x) = x"
proof (cases "x = pi / 2")
  case True
  have "atan2 (sin (pi / 2)) (cos (pi / 2)) = pi / 2" by (simp add: atan2_def)
  then show ?thesis unfolding True .
next
  case False
  with assms have lt: "x < pi / 2" by simp
  with assms have c: "0 < cos x" by (simp add: cos_gt_zero_pi)
  have "arctan (sin x / cos x) = x"
    using arctan_tan [of x] assms lt by (simp add: tan_def)
  with c show ?thesis by (simp add: atan2_def)
qed

lemma getDist_meridian:
  assumes "a \<le> b" "b - a \<le> 180"
  shows "getDist (a, l) (b, l) = 3958.8 * ((b - a) * pi / 180)"
proof -
  define x where "x = (b - a) * pi / 360"
  have x0: "0 \<le> x" using assms by (simp add: x_def)
  have x1: "x \<le> pi / 2" using assms by (simp add: x_def)
  have s: "0 \<le> sin x" using x0 x1 by (intro sin_ge_zero) (use pi_gt_zero in linarith)+
  have c: "0 \<le> cos x" using x0 x1 by (intro cos_ge_zero) (use pi_gt_zero in linarith)+
  have a: "sqrt (sin x * sin x) = sin x" using s by simp
  have "1 - sin x * sin x = cos x * cos x"
    using sin_cos_squared_add [of x] by (simp add: power2_eq_square algebra_simps)
  then have b: "sqrt (1 - sin x * sin x) = cos x" using c by simp
  have "getDist (a, l) (b, l) = 3958.8 * (2 * atan2 (sin x) (cos x))"
    using a b by (simp add: getDist_def Let_def x_def)
  also have "\<dots> = 3958.8 * (2 * x)" using atan2_sin_cos [OF x0 x1] by simp
  finally show ?thesis by (simp add: x_def)
qed

lemma shortTrip_hours:
  "originToPickupHours shortTrip = 4 / 5" "pickupToDropoffHours shortTrip = 6 / 5"
  using pi_gt_zero
  by (simp_all add: originToPickupHours_def pickupToDropoffHours_def totalDistance_def
        originToPickupDist_def pickupToDropoffDist_def shortTrip_def getDist_meridian
        field_simps)

lemma longTrip_hours:
  "originToPickupHours (longTrip h) = 2 / 5 * h" "pickupToDropoffHours (longTrip h) = 3 / 5 * h"
  using pi_gt_zero
  by (simp_all add: originToPickupHours_def pickupToDropoffHours_def totalDistance_def
        originToPickupDist_def pickupToDropoffDist_def shortTrip_def longTrip_def getDist_meridian
        field_simps)

lemma longTrip_sel:
  "polyline (longTrip h) = []" "durationHours (longTrip h) = h"
  "address (origin (points (longTrip h))) = ''Origin''"
  "address (pickup (points (longTrip h))) = ''Pickup''"
  "address (dropoff (points (longTrip h))) = ''Dropoff''"
  by (simp_all add: longTrip_def shortTrip_def)

lemmas long_trip_eval = generateDutyEvents_def toPickup_def sched_defs longTrip_hours longTrip_sel
  loop_unroll HOS_PROFILE_CONFIG_PROPERTY_CARRYING_US_FMCSA_def march_1_2024_def clock_def

subsection \<open>Whole milliseconds\<close>



subsection \<open>The heads of the loops\<close>

text \<open>
  Every step only appends events, so the events of a loop head are an initial part of the
  returned sequence.
\<close>

lemma toDropoffStep_emitted:
  "\<exists>zs. emitted (toDropoffStep route config v s) = emitted s @ zs"
  by (simp add: toDropoffStep_def fuelCheck_def rest_def takeBreak_def driveToDropoff_def
        Let_def addEvent_sel)

lemma toDropoffLoop_emitted:
  assumes "toDropoffLoop route config v s = Some s'"
  shows "\<exists>ys. emitted s' = emitted s @ ys"
proof (rule toDropoffLoop_rule [OF assms, where P = "\<lambda>t. \<exists>ys. emitted t = emitted s @ ys"])
  show "\<exists>ys. emitted s = emitted s @ ys" by simp
next
  fix t :: sched assume "\<exists>ys. emitted t = emitted s @ ys"
  then obtain ys where ys: "emitted t = emitted s @ ys" ..
  from toDropoffStep_emitted [of route config v t]
  obtain zs where "emitted (toDropoffStep route config v t) = emitted t @ zs" ..
  with ys have "emitted (toDropoffStep route config v t) = emitted s @ (ys @ zs)" by simp
  then show "\<exists>ys. emitted (toDropoffStep route config v t) = emitted s @ ys" ..
qed

lemma toPickupLoop_emitted:
  assumes "toPickupLoop route config v s = Some s'"
  shows "\<exists>ys. emitted s' = emitted s @ ys"
  by (rule toPickupLoop_rule [OF assms, where P = "\<lambda>t. \<exists>ys. emitted t = emitted s @ ys"])
     (auto simp: takeBreak_def driveToPickup_def Let_def addEvent_sel)

lemma tail_emitted:
  "\<exists>ys. emitted (endOfDayPad tz route v (postTrip route v (dropoffOperation route v s))) =
         emitted s @ ys"
  by (simp add: endOfDayPad_def postTrip_def dropoffOperation_def Let_def addEvent_sel)

lemma mainLoopHead_run:
  assumes gen: "generateDutyEvents tz route startTime config v = Some evs"
    and head: "mainLoopHead tz route startTime config v s"
  shows "\<exists>s4. toDropoffLoop route config v s = Some s4 \<and>
           evs = emitted (endOfDayPad tz route v (postTrip route v (dropoffOperation route v s4)))"
  using head
proof induction
  case (entry s2)
  from gen obtain s2' s4 where
    "toPickup route config v (preTrip tz route startTime v) = Some s2'"
    "toDropoffLoop route config v (pickupOperation route v s2') = Some s4"
    "evs = emitted (endOfDayPad tz route v (postTrip route v (dropoffOperation route v s4)))"
    by (rule generateDutyEvents_parts)
  with entry show ?case by simp
next
  case (pass s)
  with toDropoffLoop_step [of s route config v] show ?case by simp
qed

lemma mainLoopHead_prefix:
  assumes gen: "generateDutyEvents tz route startTime config v = Some evs"
    and head: "mainLoopHead tz route startTime config v s"
  shows "\<exists>post. evs = emitted s @ post"
proof -
  from mainLoopHead_run [OF gen head] obtain s4 where
    s4: "toDropoffLoop route config v s = Some s4" and
    evs: "evs = emitted (endOfDayPad tz route v (postTrip route v (dropoffOperation route v s4)))"
    by blast
  from toDropoffLoop_emitted [OF s4] obtain ys where ys: "emitted s4 = emitted s @ ys" ..
  from tail_emitted [of tz route v s4] obtain zs where
    "emitted (endOfDayPad tz route v (postTrip route v (dropoffOperation route v s4))) =
     emitted s4 @ zs" ..
  with ys evs have "evs = emitted s @ (ys @ zs)" by simp
  then show ?thesis ..
qed

lemma pickupLoopHead_run:
  assumes "pickupLoopHead tz route startTime config v s"
  shows "toPickup route config v (preTrip tz route startTime v) = toPickupLoop route config v s"
  using assms
proof induction
  case entry
  then show ?case by (simp add: toPickup_def)
next
  case (after_break s)
  with toPickupLoop_break [of s config route v] show ?case by simp
next
  case (after_drive s)
  with toPickupLoop_drive [of s config route v] show ?case by simp
qed

lemma pickupLoopHead_prefix:
  assumes gen: "generateDutyEvents tz route startTime config v = Some evs"
    and head: "pickupLoopHead tz route startTime config v s"
  shows "\<exists>post. evs = emitted s @ post"
proof -
  from gen obtain s2 s4 where
    s2: "toPickup route config v (preTrip tz route startTime v) = Some s2" and
    s4: "toDropoffLoop route config v (pickupOperation route v s2) = Some s4" and
    evs: "evs = emitted (endOfDayPad tz route v (postTrip route v (dropoffOperation route v s4)))"
    by (rule generateDutyEvents_parts)
  from s2 pickupLoopHead_run [OF head] have "toPickupLoop route config v s = Some s2" by simp
  from toPickupLoop_emitted [OF this] obtain xs where xs: "emitted s2 = emitted s @ xs" ..
  from toDropoffLoop_emitted [OF s4] obtain ys where
    ys: "emitted s4 = emitted (pickupOperation route v s2) @ ys" ..
  have "\<exists>p. emitted (pickupOperation route v s2) = emitted s2 @ [p]"
    by (simp add: pickupOperation_def Let_def addEvent_sel)
  then obtain p where p: "emitted (pickupOperation route v s2) = emitted s2 @ [p]" ..
  from tail_emitted [of tz route v s4] obtain zs where
    "emitted (endOfDayPad tz route v (postTrip route v (dropoffOperation route v s4))) =
     emitted s4 @ zs" ..
  with xs ys p evs have "evs = emitted s @ (xs @ [p] @ ys @ zs)" by simp
  then show ?thesis ..
qed

lemma afterPickup12_head:
  "mainLoopHead 0 (longTrip 12) (march_1_2024 + clock 8 0) config 50 afterPickup12"
  if "shiftRules config = shiftRules HOS_PROFILE_CONFIG_PROPERTY_CARRYING_US_FMCSA"
     "requiredAfterDrivingHours (breakRules config) = 8"
proof -
  have "toPickup (longTrip 12) config 50 (preTrip 0 (longTrip 12) (march_1_2024 + clock 8 0) 50) =
        Some (driveToPickup (longTrip 12) 50 (24 / 5)
               (preTrip 0 (longTrip 12) (march_1_2024 + clock 8 0) 50))"
    using that by (simp add: long_trip_eval)
  from mainLoopHead.entry [OF this] show ?thesis by (simp only: afterPickup12_def)
qed

section \<open>The short single-day trip\<close>

text \<open>
  The trip of two hours starting at 08:00 local time on 2024-03-01 under the default
  profile at 50 mph. Where local time is UTC the run gives the eight events and the one
  daily log of the scenario; the day ends at 23:59:59.999, so the off-duty total is one
  millisecond short of 19.5 h and the sum one millisecond short of 24 h.
\<close>

lemma short_trip_events_UTC:
  "map_option (map (shown 0))
     (generateDutyEvents 0 shortTrip (march_1_2024 + clock 8 0)
        HOS_PROFILE_CONFIG_PROPERTY_CARRYING_US_FMCSA 50) =
   Some [(off_duty, 19783, clock 0 0, clock 8 0, Off_Duty_Continuous_Rest_Period),
         (on_duty_not_driving, 19783, clock 8 0, clock 8 15, Pre_trip_Inspection),
         (driving, 19783, clock 8 15, clock 9 3, Driving_to_Pickup_Location),
         (on_duty_not_driving, 19783, clock 9 3, clock 10 3, Pickup_Loading),
         (driving, 19783, clock 10 3, clock 11 15, Driving_to_Delivery_Location),
         (on_duty_not_driving, 19783, clock 11 15, clock 12 15, Dropoff_Unloading),
         (on_duty_not_driving, 19783, clock 12 15, clock 12 30, Post_trip_Inspection),
         (off_duty, 19783, clock 12 30, clock 24 0 - 1, Off_Duty_End_of_Day_Rest_Period)]"
  by (simp add: generateDutyEvents_def toPickup_def sched_defs shortTrip_hours loop_unroll
        HOS_PROFILE_CONFIG_PROPERTY_CARRYING_US_FMCSA_def march_1_2024_def shown_defs)

lemma short_trip_logs_UTC:
  "map_option (\<lambda>evs. map summary (splitEventsIntoDays 0 evs 50))
     (generateDutyEvents 0 shortTrip (march_1_2024 + clock 8 0)
        HOS_PROFILE_CONFIG_PROPERTY_CARRYING_US_FMCSA 50) =
   Some [(19783, 8, 39 / 2 - 1 / 3600000, 0, 2, 5 / 2)]"
  by (simp add: generateDutyEvents_def toPickup_def sched_defs shortTrip_hours loop_unroll
        HOS_PROFILE_CONFIG_PROPERTY_CARRYING_US_FMCSA_def march_1_2024_def shown_defs
        split_defs)

text \<open>
  C3. The same trip where local time is UTC+08:00 (offset 28 800 000 ms), starting at
  08:00 local time on 2024-03-01, that is at midnight UTC. The eight events are those
  of the scenario, on the local day 2024-03-01 (day 19783). The partition however keys
  each piece by the UTC date of its start: the pad from local midnight to 08:00 lies on
  2024-02-29 in UTC, so two daily logs are returned, one of 8 h for 2024-02-29 and one
  of 16 h less a millisecond for 2024-03-01, instead of the single log of 24 h.
\<close>

theorem short_trip_UTC_plus_8:
  "map_option (map (shown 28800000))
     (generateDutyEvents 28800000 shortTrip (march_1_2024 + clock 8 0 - 28800000)
        HOS_PROFILE_CONFIG_PROPERTY_CARRYING_US_FMCSA 50) =
   Some [(off_duty, 19783, clock 0 0, clock 8 0, Off_Duty_Continuous_Rest_Period),
         (on_duty_not_driving, 19783, clock 8 0, clock 8 15, Pre_trip_Inspection),
         (driving, 19783, clock 8 15, clock 9 3, Driving_to_Pickup_Location),
         (on_duty_not_driving, 19783, clock 9 3, clock 10 3, Pickup_Loading),
         (driving, 19783, clock 10 3, clock 11 15, Driving_to_Delivery_Location),
         (on_duty_not_driving, 19783, clock 11 15, clock 12 15, Dropoff_Unloading),
         (on_duty_not_driving, 19783, clock 12 15, clock 12 30, Post_trip_Inspection),
         (off_duty, 19783, clock 12 30, clock 24 0 - 1, Off_Duty_End_of_Day_Rest_Period)] \<and>
   map_option (\<lambda>evs. map summary (splitEventsIntoDays 28800000 evs 50))
     (generateDutyEvents 28800000 shortTrip (march_1_2024 + clock 8 0 - 28800000)
        HOS_PROFILE_CONFIG_PROPERTY_CARRYING_US_FMCSA 50) =
   Some [(19782, 1, 8, 0, 0, 0),
         (19783, 7, 23 / 2 - 1 / 3600000, 0, 2, 5 / 2)]"
  by (simp add: generateDutyEvents_def toPickup_def sched_defs shortTrip_hours loop_unroll
        HOS_PROFILE_CONFIG_PROPERTY_CARRYING_US_FMCSA_def march_1_2024_def shown_defs
        split_defs)

section \<open>The day totals\<close>

text \<open>
  C2. The short trip where local time is UTC-05:00 (offset -18 000 000 ms), starting at
  16:00 local time on 2024-03-01. The schedule covers the local day 2024-03-01 from
  midnight to 23:59:59.999. The pieces that start at or after 19:00 local time (the
  dropoff, the post-trip inspection and the closing pad) start on 2024-03-02 in UTC and
  are keyed to that date: the log of 2024-03-01 sums to 19.25 h and a second log of
  2024-03-02 to 4.75 h less a millisecond; no log sums to 24 h.
\<close>

theorem day_totals_UTC_minus_5:
  "map_option (map (shown (- 18000000)))
     (generateDutyEvents (- 18000000) shortTrip (march_1_2024 + clock 16 0 + 18000000)
        HOS_PROFILE_CONFIG_PROPERTY_CARRYING_US_FMCSA 50) =
   Some [(off_duty, 19783, clock 0 0, clock 16 0, Off_Duty_Continuous_Rest_Period),
         (on_duty_not_driving, 19783, clock 16 0, clock 16 15, Pre_trip_Inspection),
         (driving, 19783, clock 16 15, clock 17 3, Driving_to_Pickup_Location),
         (on_duty_not_driving, 19783, clock 17 3, clock 18 3, Pickup_Loading),
         (driving, 19783, clock 18 3, clock 19 15, Driving_to_Delivery_Location),
         (on_duty_not_driving, 19783, clock 19 15, clock 20 15, Dropoff_Unloading),
         (on_duty_not_driving, 19783, clock 20 15, clock 20 30, Post_trip_Inspection),
         (off_duty, 19783, clock 20 30, clock 24 0 - 1, Off_Duty_End_of_Day_Rest_Period)] \<and>
   map_option (\<lambda>evs. map (\<lambda>l. (date l, sumTotals l)) (splitEventsIntoDays (- 18000000) evs 50))
     (generateDutyEvents (- 18000000) shortTrip (march_1_2024 + clock 16 0 + 18000000)
        HOS_PROFILE_CONFIG_PROPERTY_CARRYING_US_FMCSA 50) =
   Some [(19783, 77 / 4), (19784, 19 / 4 - 1 / 3600000)]"
  by (simp add: generateDutyEvents_def toPickup_def sched_defs shortTrip_hours loop_unroll
        HOS_PROFILE_CONFIG_PROPERTY_CARRYING_US_FMCSA_def march_1_2024_def shown_defs
        split_defs sumTotals_def)

section \<open>Events across midnight\<close>

text \<open>Where local time is UTC, the ten-hour rest is cut at midnight and its two pieces go
  to the logs of two consecutive dates.\<close>

lemma overnight_rest_UTC:
  "map (\<lambda>l. (date l, map (shown 0) (events l), totals l sleeper_berth))
     (splitEventsIntoDays 0 [overnightRest] 50) =
     [(19783, [(sleeper_berth, 19783, clock 20 45, clock 0 0, h_Daily_Rest 10)], 13 / 4),
      (19784, [(sleeper_berth, 19784, clock 0 0, clock 6 45, h_Daily_Rest 10)], 27 / 4)]"
  by (simp add: split_defs overnightRest_def shown_defs)

text \<open>
  C6. The same rest where local time is UTC-05:00 (offset -18 000 000 ms): it starts at
  20:45 on the local day 2024-03-01 (day 19783) and ends at 06:45 on the local day
  2024-03-02, so it straddles a local midnight. The loop cuts it there, into the pieces
  20:45 to 24:00 and 00:00 to 06:45, but keys each piece by the UTC date of its start,
  and both pieces start on 2024-03-02 in UTC (01:45 and 05:00): one daily log, dated
  2024-03-02, holds both pieces and all ten hours, where two different logs are due.
\<close>

theorem one_log_UTC_minus_5:
  "localDay (- 18000000) (start overnightRestEST) = 19783 \<and>
   localDay (- 18000000) (end' overnightRestEST) = 19784 \<and>
   start overnightRestEST < nextMidnight (- 18000000) (start overnightRestEST) \<and>
   nextMidnight (- 18000000) (start overnightRestEST) < end' overnightRestEST \<and>
   map (\<lambda>l. (date l, map (shown (- 18000000)) (events l), totals l sleeper_berth))
     (splitEventsIntoDays (- 18000000) [overnightRestEST] 50) =
     [(19784,
       [(sleeper_berth, 19783, clock 20 45, clock 0 0, h_Daily_Rest 10),
        (sleeper_berth, 19784, clock 0 0, clock 6 45, h_Daily_Rest 10)],
       10)]"
  by (simp add: split_defs overnightRestEST_def shown_defs nextMidnight_def)

section \<open>No rest before the pickup\<close>

lemma pickupReached_append: "pickupReached evs \<Longrightarrow> pickupReached (evs @ ys)"
  unfolding pickupReached_def by (metis append.assoc append_Cons)

lemma beforePickup_preTrip: "beforePickup (emitted (preTrip tz route startTime v))"
  by (simp add: beforePickup_def preTrip_def midnightPad_def initial_def Let_def addEvent_sel)

lemma beforePickup_toPickup:
  assumes "toPickup route config v s = Some s'" "beforePickup (emitted s)"
  shows "beforePickup (emitted s')"
proof (cases "originToPickupHours route > 0")
  case True
  with assms(1) have run: "toPickupLoop route config v s = Some s'" by (simp add: toPickup_def)
  show ?thesis
    by (rule toPickupLoop_rule [OF run, where P = "\<lambda>s. beforePickup (emitted s)"])
       (use assms(2) in
          \<open>simp_all add: beforePickup_def takeBreak_def driveToPickup_def Let_def addEvent_sel\<close>)
next
  case False
  with assms show ?thesis by (simp add: toPickup_def)
qed

lemma pickupReached_pickupOperation:
  "beforePickup (emitted s) \<Longrightarrow> pickupReached (emitted (pickupOperation route v s))"
  unfolding pickupReached_def
  by (rule exI [of _ "emitted s"]) (simp add: pickupOperation_def Let_def addEvent_sel)

lemma pickupReached_toDropoffStep:
  "pickupReached (emitted s) \<Longrightarrow> pickupReached (emitted (toDropoffStep route config v s))"
  by (auto simp: toDropoffStep_def fuelCheck_def rest_def takeBreak_def driveToDropoff_def
        Let_def addEvent_sel intro!: pickupReached_append pickupReached_append [of _ "[a, b]" for a b, simplified])

lemma pickupReached_generate:
  assumes "generateDutyEvents tz route startTime config v = Some evs"
  shows "pickupReached evs"
proof -
  from assms obtain s2 s4 where
    s2: "toPickup route config v (preTrip tz route startTime v) = Some s2" and
    s4: "toDropoffLoop route config v (pickupOperation route v s2) = Some s4" and
    evs: "evs = emitted (endOfDayPad tz route v (postTrip route v (dropoffOperation route v s4)))"
    by (auto simp: generateDutyEvents_def split: option.splits)
  have "beforePickup (emitted s2)"
    using beforePickup_toPickup [OF s2 beforePickup_preTrip] .
  then have "pickupReached (emitted (pickupOperation route v s2))"
    by (rule pickupReached_pickupOperation)
  then have "pickupReached (emitted s4)"
    by (rule toDropoffLoop_rule [OF s4, where P = "\<lambda>s. pickupReached (emitted s)"])
       (rule pickupReached_toDropoffStep)
  then show ?thesis
    unfolding evs
    by (auto simp: endOfDayPad_def postTrip_def dropoffOperation_def Let_def addEvent_sel
          intro!: pickupReached_append pickupReached_append [of _ "[a, b]" for a b, simplified]
                  pickupReached_append [of _ "[a, b, c]" for a b c, simplified])
qed

text \<open>
  C8. In the first driving loop, when the drivable time is not positive although the
  break is not yet due (so the driving cap or the duty window is used up), the loop
  returns at once with the state as it is: no event is added and the leg stays
  incomplete. Every returned sequence therefore has a pickup event before which no
  event is a sleeper-berth rest.
\<close>

theorem no_rest_before_pickup:
  "(0 < originToPickupRemaining s \<and>
    drivingSinceLastBreakHours s < requiredAfterDrivingHours (breakRules config) \<and>
    maxDrivingToPickup config s \<le> 0 \<longrightarrow>
      toPickupLoop route config averageSpeed s = Some s) \<and>
   (generateDutyEvents tz route startTime config averageSpeed = Some evs \<longrightarrow>
      (\<exists>pre p post. evs = pre @ p # post \<and> remarks p = Pickup_Loading \<and>
         (\<forall>e \<in> set pre. status e \<noteq> sleeper_berth \<and> remarks e \<noteq> Pickup_Loading)))"
proof (intro conjI impI)
  assume "0 < originToPickupRemaining s \<and>
    drivingSinceLastBreakHours s < requiredAfterDrivingHours (breakRules config) \<and>
    maxDrivingToPickup config s \<le> 0"
  then show "toPickupLoop route config averageSpeed s = Some s"
    by (simp add: toPickupLoop_stop)
next
  assume "generateDutyEvents tz route startTime config averageSpeed = Some evs"
  then have "pickupReached evs" by (rule pickupReached_generate)
  then show "\<exists>pre p post. evs = pre @ p # post \<and> remarks p = Pickup_Loading \<and>
         (\<forall>e \<in> set pre. status e \<noteq> sleeper_berth \<and> remarks e \<noteq> Pickup_Loading)"
    unfolding pickupReached_def beforePickup_def list_all_iff by blast
qed

theorem no_rest_before_pickup_witness:
  "\<exists>s evs.
     s = driveToPickup shortTrip 50 (1 / 2) (preTrip 0 shortTrip (march_1_2024 + clock 8 0) 50) \<and>
     0 < originToPickupRemaining s \<and>
     drivingSinceLastBreakHours s < requiredAfterDrivingHours (breakRules halfHourShifts) \<and>
     maxDrivingToPickup halfHourShifts s \<le> 0 \<and>
     toPickupLoop shortTrip halfHourShifts 50 s = Some s \<and>
     generateDutyEvents 0 shortTrip (march_1_2024 + clock 8 0) halfHourShifts 50 = Some evs \<and>
     (\<exists>pre p post. evs = pre @ p # post \<and> remarks p = Pickup_Loading \<and>
         (\<forall>e \<in> set pre. status e \<noteq> sleeper_berth \<and> remarks e \<noteq> Pickup_Loading))"
proof -
  let ?s = "driveToPickup shortTrip 50 (1 / 2) (preTrip 0 shortTrip (march_1_2024 + clock 8 0) 50)"
  have h1: "0 < originToPickupRemaining ?s \<and>
     drivingSinceLastBreakHours ?s < requiredAfterDrivingHours (breakRules halfHourShifts) \<and>
     maxDrivingToPickup halfHourShifts ?s \<le> 0"
    by (simp add: sched_defs shortTrip_hours halfHourShifts_def march_1_2024_def clock_def
          HOS_PROFILE_CONFIG_PROPERTY_CARRYING_US_FMCSA_def)
  have "\<exists>evs. generateDutyEvents 0 shortTrip (march_1_2024 + clock 8 0) halfHourShifts 50 = Some evs"
    by (simp add: generateDutyEvents_def toPickup_def sched_defs shortTrip_hours loop_unroll
          HOS_PROFILE_CONFIG_PROPERTY_CARRYING_US_FMCSA_def halfHourShifts_def march_1_2024_def
          clock_def)
  then obtain evs where
    h2: "generateDutyEvents 0 shortTrip (march_1_2024 + clock 8 0) halfHourShifts 50 = Some evs" ..
  from no_rest_before_pickup [of ?s halfHourShifts shortTrip 50 0 "march_1_2024 + clock 8 0" evs]
    h1 h2 show ?thesis by blast
qed

section \<open>Breaks and the duty window\<close>

text \<open>The loops read the profile's shift rules and break rules only.\<close>

lemma toPickupLoop_cong_Some:
  assumes run: "toPickupLoop route c1 v s = Some s'"
    and eq: "shiftRules c2 = shiftRules c1" "breakRules c2 = breakRules c1"
  shows "toPickupLoop route c2 v s = Some s'"
proof -
  let ?Q = "\<lambda>r c v t t'. \<forall>c'::HosProfileConfig. shiftRules c' = shiftRules c \<and> breakRules c' = breakRules c \<longrightarrow>
              toPickupLoop r c' v t = Some t'"
  have "?Q route c1 v s s'"
  proof (rule toPickupLoop.raw_induct [where P = ?Q, OF _ run])
    fix loop r c v t t'
    assume IH: "\<And>r c v t t'. loop r c v t = Some t' \<Longrightarrow> ?Q r c v t t'"
      and body: "(if originToPickupRemaining t > 0 then
                  if drivingSinceLastBreakHours t \<ge> requiredAfterDrivingHours (breakRules c)
                  then loop r c v (takeBreak r c v t)
                  else if maxDrivingToPickup c t \<le> 0 then Some t
                  else loop r c v (driveToPickup r v (maxDrivingToPickup c t) t)
                else Some t) = Some t'"
    show "?Q r c v t t'"
    proof (intro allI impI)
      fix c' :: HosProfileConfig assume c': "shiftRules c' = shiftRules c \<and> breakRules c' = breakRules c"
      then have same: "takeBreak r c' v t = takeBreak r c v t"
        "maxDrivingToPickup c' t = maxDrivingToPickup c t"
        by (simp_all add: takeBreak_def maxDrivingToPickup_def)
      show "toPickupLoop r c' v t = Some t'"
        using body IH c' same
        by (subst toPickupLoop.simps) (auto split: if_splits)
    qed
  qed
  with eq show ?thesis by blast
qed

lemma toPickupLoop_cong:
  assumes "shiftRules c2 = shiftRules c1" "breakRules c2 = breakRules c1"
  shows "toPickupLoop route c2 v s = toPickupLoop route c1 v s"
proof (cases "toPickupLoop route c1 v s")
  case (Some s')
  then show ?thesis using toPickupLoop_cong_Some [OF Some assms] by simp
next
  case None
  show ?thesis
  proof (cases "toPickupLoop route c2 v s")
    case (Some s')
    from toPickupLoop_cong_Some [OF Some assms(1) [symmetric] assms(2) [symmetric]] None
    show ?thesis by simp
  qed (simp add: None)
qed

lemma toDropoffStep_cong:
  assumes "shiftRules c2 = shiftRules c1" "breakRules c2 = breakRules c1"
  shows "toDropoffStep route c2 v s = toDropoffStep route c1 v s"
  unfolding toDropoffStep_def rest_def takeBreak_def maxDrivingToDropoff_def
    atDrivingLimit_def atDutyWindowLimit_def assms ..

lemma toDropoffLoop_cong_Some:
  assumes run: "toDropoffLoop route c1 v s = Some s'"
    and eq: "shiftRules c2 = shiftRules c1" "breakRules c2 = breakRules c1"
  shows "toDropoffLoop route c2 v s = Some s'"
proof -
  let ?Q = "\<lambda>r c v t t'. \<forall>c'::HosProfileConfig. shiftRules c' = shiftRules c \<and> breakRules c' = breakRules c \<longrightarrow>
              toDropoffLoop r c' v t = Some t'"
  have "?Q route c1 v s s'"
  proof (rule toDropoffLoop.raw_induct [where P = ?Q, OF _ run])
    fix loop r c v t t'
    assume IH: "\<And>r c v t t'. loop r c v t = Some t' \<Longrightarrow> ?Q r c v t t'"
      and body: "(if remainingDrivingHours t > 0
                then loop r c v (toDropoffStep r c v t) else Some t) = Some t'"
    show "?Q r c v t t'"
    proof (intro allI impI)
      fix c' :: HosProfileConfig assume c': "shiftRules c' = shiftRules c \<and> breakRules c' = breakRules c"
      then have same: "toDropoffStep r c' v t = toDropoffStep r c v t"
        by (intro toDropoffStep_cong) simp_all
      show "toDropoffLoop r c' v t = Some t'"
      proof (cases "remainingDrivingHours t > 0")
        case True
        with body have "loop r c v (toDropoffStep r c v t) = Some t'" by simp
        from IH [OF this, rule_format, OF c']
        have run': "toDropoffLoop r c' v (toDropoffStep r c v t) = Some t'" .
        have "toDropoffLoop r c' v t = toDropoffLoop r c' v (toDropoffStep r c' v t)"
          using True by (rule toDropoffLoop_step)
        also have "\<dots> = toDropoffLoop r c' v (toDropoffStep r c v t)" by (simp only: same)
        also have "\<dots> = Some t'" by (rule run')
        finally show ?thesis .
      next
        case False
        with body have "t' = t" by simp
        with False show ?thesis by (simp add: toDropoffLoop_exit)
      qed
    qed
  qed
  with eq show ?thesis by blast
qed

lemma toDropoffLoop_cong:
  assumes "shiftRules c2 = shiftRules c1" "breakRules c2 = breakRules c1"
  shows "toDropoffLoop route c2 v s = toDropoffLoop route c1 v s"
proof (cases "toDropoffLoop route c1 v s")
  case (Some s')
  then show ?thesis using toDropoffLoop_cong_Some [OF Some assms] by simp
next
  case None
  show ?thesis
  proof (cases "toDropoffLoop route c2 v s")
    case (Some s')
    from toDropoffLoop_cong_Some [OF Some assms(1) [symmetric] assms(2) [symmetric]] None
    show ?thesis by simp
  qed (simp add: None)
qed

lemma generateDutyEvents_cong:
  assumes "shiftRules c2 = shiftRules c1" "breakRules c2 = breakRules c1"
  shows "generateDutyEvents tz route startTime c2 v = generateDutyEvents tz route startTime c1 v"
  unfolding generateDutyEvents_def toPickup_def toPickupLoop_cong [OF assms]
    toDropoffLoop_cong [OF assms] ..

text \<open>When the break of a pass of the main loop closes the duty window, driving time
  still remains and the next pass adds a sleeper-berth rest.\<close>

lemma break_then_rest:
  assumes rem: "0 < remainingDrivingHours s"
    and nl: "\<not> atDrivingLimit config (fuelCheck route v s)"
      "\<not> atDutyWindowLimit config (fuelCheck route v s)"
    and due: "requiredAfterDrivingHours (breakRules config)
                \<le> drivingSinceLastBreakHours (fuelCheck route v s)"
    and closed: "maxDutyWindowHours (shiftRules config)
                \<le> shiftDutyWindowHours (fuelCheck route v s) +
                   breakDurationMinutes (breakRules config) / 60"
  shows "0 < remainingDrivingHours (toDropoffStep route config v s)"
    and "\<exists>r. emitted (toDropoffStep route config v (toDropoffStep route config v s)) =
               emitted (toDropoffStep route config v s) @ [r] \<and> status r = sleeper_berth"
proof -
  let ?s1 = "fuelCheck route v s"
  let ?s' = "toDropoffStep route config v s"
  have step: "?s' = takeBreak route config v ?s1" using nl due by (rule break_pass)
  show rem': "0 < remainingDrivingHours ?s'"
    using rem unfolding step by (simp add: takeBreak_sel fuelCheck_sel)
  have "milesSinceFuel ?s' < fuelIntervalMiles"
    unfolding step by (simp add: takeBreak_sel fuelCheck_sel)
  then have f: "fuelCheck route v ?s' = ?s'" by (rule fuelCheck_sel(6))
  have "atDutyWindowLimit config ?s'"
    using closed unfolding step by (simp add: atDutyWindowLimit_def takeBreak_sel)
  then have "atDrivingLimit config (fuelCheck route v ?s') \<or>
             atDutyWindowLimit config (fuelCheck route v ?s')" by (simp add: f)
  from rest_pass [OF this]
    rest_emitted [of route config v "''Truck Stop''"
      "h_Daily_Rest (minOffDutyBeforeShiftHours (shiftRules config))" ?s']
  show "\<exists>r. emitted (toDropoffStep route config v ?s') = emitted ?s' @ [r] \<and>
            status r = sleeper_berth"
    by (simp only: f) blast
qed

text \<open>
  C10. In every run, a pass of the main loop that takes the break (driving time remains,
  no limit is reached after the fuel check, the break is due) appends one off-duty event
  and adds the full break duration to \<open>shiftDutyWindowHours\<close>; the event is part of the
  returned sequence. If the duty window is thereby used up, the next pass appends a
  sleeper-berth rest, which follows the break in the returned sequence: break time
  alone can force a rest. A pass of the first loop that takes the break does the same
  to \<open>shiftDutyWindowHours\<close>. The run does not depend on the per-status flags of the
  profile: any other flags give the same result. After the pad from midnight
  \<open>shiftDutyWindowHours\<close> is 0, and after a sleeper-berth rest it is 0. In the
  twelve-hour trip with a break of six hours, the rest follows the break at once, after
  eight hours of driving in the shift.
\<close>

theorem breaks_count_toward_duty_window:
  "(mainLoopHead tz route startTime config averageSpeed s \<and> 0 < remainingDrivingHours s \<and>
    \<not> atDrivingLimit config (fuelCheck route averageSpeed s) \<and>
    \<not> atDutyWindowLimit config (fuelCheck route averageSpeed s) \<and>
    requiredAfterDrivingHours (breakRules config)
      \<le> drivingSinceLastBreakHours (fuelCheck route averageSpeed s) \<longrightarrow>
      mainLoopHead tz route startTime config averageSpeed
        (toDropoffStep route config averageSpeed s) \<and>
      (\<exists>e. emitted (toDropoffStep route config averageSpeed s) =
             emitted (fuelCheck route averageSpeed s) @ [e] \<and>
           status e = off_duty \<and>
           remarks e = min_Break (breakDurationMinutes (breakRules config))) \<and>
      shiftDutyWindowHours (toDropoffStep route config averageSpeed s) =
        shiftDutyWindowHours (fuelCheck route averageSpeed s) +
        breakDurationMinutes (breakRules config) / 60 \<and>
      (\<forall>evs. generateDutyEvents tz route startTime config averageSpeed = Some evs \<longrightarrow>
         (\<exists>post. evs = emitted (toDropoffStep route config averageSpeed s) @ post)) \<and>
      (maxDutyWindowHours (shiftRules config)
         \<le> shiftDutyWindowHours (fuelCheck route averageSpeed s) +
            breakDurationMinutes (breakRules config) / 60 \<longrightarrow>
         (\<exists>r. emitted (toDropoffStep route config averageSpeed
                  (toDropoffStep route config averageSpeed s)) =
                emitted (toDropoffStep route config averageSpeed s) @ [r] \<and>
              status r = sleeper_berth \<and>
              (\<forall>evs. generateDutyEvents tz route startTime config averageSpeed = Some evs \<longrightarrow>
                 (\<exists>post. evs = emitted (toDropoffStep route config averageSpeed s) @ r # post))))) \<and>
   (pickupLoopHead tz route startTime config averageSpeed s \<and> 0 < originToPickupRemaining s \<and>
    requiredAfterDrivingHours (breakRules config) \<le> drivingSinceLastBreakHours s \<longrightarrow>
      pickupLoopHead tz route startTime config averageSpeed
        (takeBreak route config averageSpeed s) \<and>
      (\<exists>e. emitted (takeBreak route config averageSpeed s) = emitted s @ [e] \<and>
           status e = off_duty \<and>
           remarks e = min_Break (breakDurationMinutes (breakRules config))) \<and>
      shiftDutyWindowHours (takeBreak route config averageSpeed s) =
        shiftDutyWindowHours s + breakDurationMinutes (breakRules config) / 60 \<and>
      (\<forall>evs. generateDutyEvents tz route startTime config averageSpeed = Some evs \<longrightarrow>
         (\<exists>post. evs = emitted (takeBreak route config averageSpeed s) @ post))) \<and>
   generateDutyEvents tz route startTime (config\<lparr>dutyStatuses := flags\<rparr>) averageSpeed =
     generateDutyEvents tz route startTime config averageSpeed \<and>
   shiftDutyWindowHours (midnightPad tz route startTime averageSpeed) = 0 \<and>
   ((atDrivingLimit config (fuelCheck route averageSpeed s) \<or>
     atDutyWindowLimit config (fuelCheck route averageSpeed s)) \<longrightarrow>
      shiftDutyWindowHours (toDropoffStep route config averageSpeed s) = 0) \<and>
   map_option (map (shown 0))
     (generateDutyEvents 0 (longTrip 12) (march_1_2024 + clock 8 0) longBreak 50) =
   Some [(off_duty, 19783, clock 0 0, clock 8 0, Off_Duty_Continuous_Rest_Period),
         (on_duty_not_driving, 19783, clock 8 0, clock 8 15, Pre_trip_Inspection),
         (driving, 19783, clock 8 15, clock 13 3, Driving_to_Pickup_Location),
         (on_duty_not_driving, 19783, clock 13 3, clock 14 3, Pickup_Loading),
         (driving, 19783, clock 14 3, clock 17 15, Driving_to_Delivery_Location),
         (off_duty, 19783, clock 17 15, clock 23 15, min_Break 360),
         (sleeper_berth, 19783, clock 23 15, clock 9 15, h_Daily_Rest 10),
         (driving, 19784, clock 9 15, clock 13 15, Driving_to_Delivery_Location),
         (on_duty_not_driving, 19784, clock 13 15, clock 14 15, Dropoff_Unloading),
         (on_duty_not_driving, 19784, clock 14 15, clock 14 30, Post_trip_Inspection),
         (off_duty, 19784, clock 14 30, clock 24 0 - 1, Off_Duty_End_of_Day_Rest_Period)]"
proof (intro conjI impI)
  let ?s1 = "fuelCheck route averageSpeed s"
  let ?s' = "toDropoffStep route config averageSpeed s"
  let ?gen = "generateDutyEvents tz route startTime config averageSpeed"
  let ?b = "breakDurationMinutes (breakRules config) / 60"
  assume h: "mainLoopHead tz route startTime config averageSpeed s \<and> 0 < remainingDrivingHours s \<and>
    \<not> atDrivingLimit config ?s1 \<and> \<not> atDutyWindowLimit config ?s1 \<and>
    requiredAfterDrivingHours (breakRules config) \<le> drivingSinceLastBreakHours ?s1"
  then have step: "?s' = takeBreak route config averageSpeed ?s1" by (intro break_pass) simp_all
  from h show head': "mainLoopHead tz route startTime config averageSpeed ?s'"
    by (intro mainLoopHead.pass) simp_all
  show "\<exists>e. emitted ?s' = emitted ?s1 @ [e] \<and> status e = off_duty \<and>
           remarks e = min_Break (breakDurationMinutes (breakRules config))"
    unfolding step by (rule takeBreak_emitted)
  show "shiftDutyWindowHours ?s' = shiftDutyWindowHours ?s1 + ?b"
    unfolding step by (simp add: takeBreak_sel)
  show "\<forall>evs. ?gen = Some evs \<longrightarrow> (\<exists>post. evs = emitted ?s' @ post)"
    using mainLoopHead_prefix [OF _ head'] by blast
  assume closed: "maxDutyWindowHours (shiftRules config) \<le> shiftDutyWindowHours ?s1 + ?b"
  from h closed have rem': "0 < remainingDrivingHours ?s'"
    by (intro break_then_rest(1)) simp_all
  from h closed have "\<exists>r. emitted (toDropoffStep route config averageSpeed ?s') =
               emitted ?s' @ [r] \<and> status r = sleeper_berth"
    by (intro break_then_rest(2)) simp_all
  then obtain r where r: "emitted (toDropoffStep route config averageSpeed ?s') = emitted ?s' @ [r]"
    "status r = sleeper_berth" by blast
  have head'': "mainLoopHead tz route startTime config averageSpeed
      (toDropoffStep route config averageSpeed ?s')"
    using head' rem' by (rule mainLoopHead.pass)
  have "\<forall>evs. ?gen = Some evs \<longrightarrow> (\<exists>post. evs = emitted ?s' @ r # post)"
  proof (intro allI impI)
    fix evs assume "?gen = Some evs"
    from mainLoopHead_prefix [OF this head''] obtain post where
      "evs = emitted (toDropoffStep route config averageSpeed ?s') @ post" ..
    with r(1) have "evs = emitted ?s' @ r # post" by simp
    then show "\<exists>post. evs = emitted ?s' @ r # post" ..
  qed
  with r show "\<exists>r. emitted (toDropoffStep route config averageSpeed ?s') = emitted ?s' @ [r] \<and>
              status r = sleeper_berth \<and>
              (\<forall>evs. ?gen = Some evs \<longrightarrow> (\<exists>post. evs = emitted ?s' @ r # post))"
    by blast
next
  let ?gen = "generateDutyEvents tz route startTime config averageSpeed"
  let ?s' = "takeBreak route config averageSpeed s"
  assume h: "pickupLoopHead tz route startTime config averageSpeed s \<and>
    0 < originToPickupRemaining s \<and>
    requiredAfterDrivingHours (breakRules config) \<le> drivingSinceLastBreakHours s"
  then show head': "pickupLoopHead tz route startTime config averageSpeed ?s'"
    by (intro pickupLoopHead.after_break) simp_all
  show "\<exists>e. emitted ?s' = emitted s @ [e] \<and> status e = off_duty \<and>
           remarks e = min_Break (breakDurationMinutes (breakRules config))"
    by (rule takeBreak_emitted)
  show "shiftDutyWindowHours ?s' =
        shiftDutyWindowHours s + breakDurationMinutes (breakRules config) / 60"
    by (simp add: takeBreak_sel)
  show "\<forall>evs. ?gen = Some evs \<longrightarrow> (\<exists>post. evs = emitted ?s' @ post)"
    using pickupLoopHead_prefix [OF _ head'] by blast
next
  show "generateDutyEvents tz route startTime (config\<lparr>dutyStatuses := flags\<rparr>) averageSpeed =
     generateDutyEvents tz route startTime config averageSpeed"
    by (rule generateDutyEvents_cong) simp_all
  show "shiftDutyWindowHours (midnightPad tz route startTime averageSpeed) = 0"
    by (simp add: midnightPad_def initial_def Let_def addEvent_sel)
  show "shiftDutyWindowHours (toDropoffStep route config averageSpeed s) = 0"
    if "atDrivingLimit config (fuelCheck route averageSpeed s) \<or>
        atDutyWindowLimit config (fuelCheck route averageSpeed s)"
    using rest_pass [OF that] by (simp add: rest_sel)
  show "map_option (map (shown 0))
     (generateDutyEvents 0 (longTrip 12) (march_1_2024 + clock 8 0) longBreak 50) =
   Some [(off_duty, 19783, clock 0 0, clock 8 0, Off_Duty_Continuous_Rest_Period),
         (on_duty_not_driving, 19783, clock 8 0, clock 8 15, Pre_trip_Inspection),
         (driving, 19783, clock 8 15, clock 13 3, Driving_to_Pickup_Location),
         (on_duty_not_driving, 19783, clock 13 3, clock 14 3, Pickup_Loading),
         (driving, 19783, clock 14 3, clock 17 15, Driving_to_Delivery_Location),
         (off_duty, 19783, clock 17 15, clock 23 15, min_Break 360),
         (sleeper_berth, 19783, clock 23 15, clock 9 15, h_Daily_Rest 10),
         (driving, 19784, clock 9 15, clock 13 15, Driving_to_Delivery_Location),
         (on_duty_not_driving, 19784, clock 13 15, clock 14 15, Dropoff_Unloading),
         (on_duty_not_driving, 19784, clock 14 15, clock 14 30, Post_trip_Inspection),
         (off_duty, 19784, clock 14 30, clock 24 0 - 1, Off_Duty_End_of_Day_Rest_Period)]"
    by (simp add: generateDutyEvents_def toPickup_def sched_defs longTrip_hours longTrip_sel
          loop_unroll longBreak_def HOS_PROFILE_CONFIG_PROPERTY_CARRYING_US_FMCSA_def
          march_1_2024_def shown_defs)
qed

theorem breaks_count_toward_duty_window_witness:
  "\<exists>evs r post.
     countsTowardDutyWindow (dutyStatuses longBreak off_duty) = False \<and>
     mainLoopHead 0 (longTrip 12) (march_1_2024 + clock 8 0) longBreak 50 breakDue12 \<and>
     remainingDrivingHours breakDue12 = 4 \<and>
     shiftDrivingHours breakDue12 = 8 \<and>
     maxDrivingHours (shiftRules longBreak) = 11 \<and>
     drivingSinceLastBreakHours breakDue12 = 8 \<and>
     shiftDutyWindowHours breakDue12 = 37 / 4 \<and>
     maxDutyWindowHours (shiftRules longBreak) = 14 \<and>
     shiftDutyWindowHours (toDropoffStep (longTrip 12) longBreak 50 breakDue12) = 61 / 4 \<and>
     shiftDrivingHours (toDropoffStep (longTrip 12) longBreak 50 breakDue12) = 8 \<and>
     generateDutyEvents 0 (longTrip 12) (march_1_2024 + clock 8 0) longBreak 50 = Some evs \<and>
     evs = emitted (toDropoffStep (longTrip 12) longBreak 50 breakDue12) @ r # post \<and>
     status r = sleeper_berth"
proof -
  let ?gen = "generateDutyEvents 0 (longTrip 12) (march_1_2024 + clock 8 0) longBreak 50"
  let ?s' = "toDropoffStep (longTrip 12) longBreak 50 breakDue12"
  have "\<exists>evs. ?gen = Some evs"
    by (simp add: generateDutyEvents_def toPickup_def sched_defs longTrip_hours longTrip_sel
          loop_unroll longBreak_def HOS_PROFILE_CONFIG_PROPERTY_CARRYING_US_FMCSA_def
          march_1_2024_def clock_def)
  then obtain evs where gen: "?gen = Some evs" ..
  have h0: "mainLoopHead 0 (longTrip 12) (march_1_2024 + clock 8 0) longBreak 50 afterPickup12"
    by (rule afterPickup12_head)
       (simp_all add: longBreak_def HOS_PROFILE_CONFIG_PROPERTY_CARRYING_US_FMCSA_def)
  have "remainingDrivingHours afterPickup12 > 0"
    by (simp add: long_trip_eval afterPickup12_def)
  with h0 have head: "mainLoopHead 0 (longTrip 12) (march_1_2024 + clock 8 0) longBreak 50 breakDue12"
    unfolding breakDue12_def by (rule mainLoopHead.pass)
  have c: "countsTowardDutyWindow (dutyStatuses longBreak off_duty) = False"
    "remainingDrivingHours breakDue12 = 4" "shiftDrivingHours breakDue12 = 8"
    "maxDrivingHours (shiftRules longBreak) = 11"
    "drivingSinceLastBreakHours breakDue12 = 8"
    "shiftDutyWindowHours breakDue12 = 37 / 4"
    "maxDutyWindowHours (shiftRules longBreak) = 14"
    "requiredAfterDrivingHours (breakRules longBreak) = 8"
    "breakDurationMinutes (breakRules longBreak) = 360"
    "fuelCheck (longTrip 12) 50 breakDue12 = breakDue12"
    "shiftDrivingHours ?s' = 8"
    by (simp_all add: long_trip_eval breakDue12_def afterPickup12_def longBreak_def)
  have hyp: "mainLoopHead 0 (longTrip 12) (march_1_2024 + clock 8 0) longBreak 50 breakDue12 \<and>
    0 < remainingDrivingHours breakDue12 \<and>
    \<not> atDrivingLimit longBreak (fuelCheck (longTrip 12) 50 breakDue12) \<and>
    \<not> atDutyWindowLimit longBreak (fuelCheck (longTrip 12) 50 breakDue12) \<and>
    requiredAfterDrivingHours (breakRules longBreak)
      \<le> drivingSinceLastBreakHours (fuelCheck (longTrip 12) 50 breakDue12)"
    using head by (simp add: c atDrivingLimit_def atDutyWindowLimit_def)
  have closed: "maxDutyWindowHours (shiftRules longBreak)
         \<le> shiftDutyWindowHours (fuelCheck (longTrip 12) 50 breakDue12) +
            breakDurationMinutes (breakRules longBreak) / 60"
    by (simp add: c)
  from breaks_count_toward_duty_window [where s = breakDue12 and config = longBreak
      and route = "longTrip 12" and averageSpeed = 50 and tz = 0
      and startTime = "march_1_2024 + clock 8 0"] hyp closed
  have w: "shiftDutyWindowHours ?s' =
        shiftDutyWindowHours (fuelCheck (longTrip 12) 50 breakDue12) +
        breakDurationMinutes (breakRules longBreak) / 60"
    and "\<exists>r. status r = sleeper_berth \<and>
              (\<forall>evs. ?gen = Some evs \<longrightarrow> (\<exists>post. evs = emitted ?s' @ r # post))"
    by blast+
  then obtain r post where r: "status r = sleeper_berth" "evs = emitted ?s' @ r # post"
    using gen by blast
  from w have w': "shiftDutyWindowHours ?s' = 61 / 4" by (simp add: c)
  from c head w' gen r show ?thesis by blast
qed

section \<open>The forced rest\<close>




section \<open>Positions along the polyline\<close>











section \<open>The sequence of events\<close>







lemma gapless_update [simp]:
  "gapless t0 (s\<lparr>originToPickupRemaining := a\<rparr>) = gapless t0 s"
  "gapless t0 (s\<lparr>remainingDrivingHours := a\<rparr>) = gapless t0 s"
  "gapless t0 (s\<lparr>shiftDrivingHours := a\<rparr>) = gapless t0 s"
  "gapless t0 (s\<lparr>shiftDutyWindowHours := a\<rparr>) = gapless t0 s"
  "gapless t0 (s\<lparr>drivingSinceLastBreakHours := a\<rparr>) = gapless t0 s"
  "gapless t0 (s\<lparr>milesSinceFuel := a\<rparr>) = gapless t0 s"
  by (simp_all add: gapless_def)

lemma forward_update [simp]:
  "forward (s\<lparr>originToPickupRemaining := a\<rparr>) = forward s"
  "forward (s\<lparr>remainingDrivingHours := a\<rparr>) = forward s"
  "forward (s\<lparr>shiftDrivingHours := a\<rparr>) = forward s"
  "forward (s\<lparr>shiftDutyWindowHours := a\<rparr>) = forward s"
  "forward (s\<lparr>drivingSinceLastBreakHours := a\<rparr>) = forward s"
  "forward (s\<lparr>milesSinceFuel := a\<rparr>) = forward s"
  by (simp_all add: forward_def)















section \<open>Stalling\<close>

subsection \<open>Profiles on which a loop never returns\<close>










section \<open>No validation\<close>

lemma noFuelStop_preTrip: "noFuelStop (preTrip tz route startTime v)"
  by (simp add: noFuelStop_def preTrip_def midnightPad_def initial_def Let_def addEvent_sel)

lemma noFuelStop_takeBreak: "noFuelStop s \<Longrightarrow> noFuelStop (takeBreak route config v s)"
  by (simp add: noFuelStop_def takeBreak_def Let_def addEvent_sel)

lemma noFuelStop_driveToPickup:
  assumes "noFuelStop s" "v \<le> 0" "0 < m"
  shows "noFuelStop (driveToPickup route v m s)"
proof -
  have "m * v \<le> 0" using assms(2,3) by (simp add: mult_nonneg_nonpos)
  with assms(1) show ?thesis
    by (simp add: noFuelStop_def driveToPickup_def Let_def addEvent_sel)
qed

lemma noFuelStop_pickupOperation: "noFuelStop s \<Longrightarrow> noFuelStop (pickupOperation route v s)"
  by (simp add: noFuelStop_def pickupOperation_def Let_def addEvent_sel)

lemma noFuelStop_toDropoffStep:
  assumes nf: "noFuelStop s" and v: "v \<le> 0"
  shows "noFuelStop (toDropoffStep route config v s)"
proof -
  from nf have "milesSinceFuel s < fuelIntervalMiles"
    by (simp add: noFuelStop_def fuelIntervalMiles_def)
  then have f: "fuelCheck route v s = s" by (rule fuelCheck_sel(6))
  have drive: "noFuelStop (driveToDropoff route v m s)" if "0 < m" for m
  proof -
    have "m * v \<le> 0" using v that by (simp add: mult_nonneg_nonpos)
    with nf show ?thesis
      by (simp add: noFuelStop_def driveToDropoff_def Let_def addEvent_sel)
  qed
  have others: "noFuelStop (rest route config v loc (h_Daily_Rest x) s)"
    "noFuelStop (rest route config v loc Duty_Window_Rest s)"
    "noFuelStop (takeBreak route config v s)" for loc x
    using nf by (simp_all add: noFuelStop_def rest_def takeBreak_def Let_def addEvent_sel)
  show ?thesis
    unfolding toDropoffStep_def Let_def f
    using drive [of "maxDrivingToDropoff config s"] others by (simp add: not_le)
qed

lemma noFuelStop_tail:
  "noFuelStop s \<Longrightarrow>
   noFuelStop (endOfDayPad tz route v (postTrip route v (dropoffOperation route v s)))"
  by (simp add: noFuelStop_def endOfDayPad_def postTrip_def dropoffOperation_def Let_def
        addEvent_sel)

text \<open>
  C4, as stated, fails: nothing validates the input. At speed 0 the short trip gives the
  eight events of the scenario.
\<close>

theorem speed_zero_counterexample:
  "map_option (map (shown 0))
     (generateDutyEvents 0 shortTrip (march_1_2024 + clock 8 0)
        HOS_PROFILE_CONFIG_PROPERTY_CARRYING_US_FMCSA 0) =
   Some [(off_duty, 19783, clock 0 0, clock 8 0, Off_Duty_Continuous_Rest_Period),
         (on_duty_not_driving, 19783, clock 8 0, clock 8 15, Pre_trip_Inspection),
         (driving, 19783, clock 8 15, clock 9 3, Driving_to_Pickup_Location),
         (on_duty_not_driving, 19783, clock 9 3, clock 10 3, Pickup_Loading),
         (driving, 19783, clock 10 3, clock 11 15, Driving_to_Delivery_Location),
         (on_duty_not_driving, 19783, clock 11 15, clock 12 15, Dropoff_Unloading),
         (on_duty_not_driving, 19783, clock 12 15, clock 12 30, Post_trip_Inspection),
         (off_duty, 19783, clock 12 30, clock 24 0 - 1, Off_Duty_End_of_Day_Rest_Period)]"
  by (simp add: generateDutyEvents_def toPickup_def sched_defs shortTrip_hours loop_unroll
        HOS_PROFILE_CONFIG_PROPERTY_CARRYING_US_FMCSA_def march_1_2024_def shown_defs)

text \<open>Every returned sequence has the four events of a trip, once each and in order.\<close>

lemma milestones_preTrip:
  "milestones (emitted (preTrip tz route startTime v)) = [Pre_trip_Inspection]"
  by (simp add: milestones_def preTrip_def midnightPad_def initial_def Let_def addEvent_sel)

lemma milestones_toDropoffStep:
  "milestones (emitted (toDropoffStep route config v s)) = milestones (emitted s)"
  by (simp add: milestones_def toDropoffStep_def fuelCheck_def rest_def takeBreak_def
        driveToDropoff_def Let_def addEvent_sel)

lemma milestones_generate:
  assumes gen: "generateDutyEvents tz route startTime config v = Some evs"
  shows "milestones evs =
         [Pre_trip_Inspection, Pickup_Loading, Dropoff_Unloading, Post_trip_Inspection]"
proof -
  from gen obtain s2 s4 where
    s2: "toPickup route config v (preTrip tz route startTime v) = Some s2" and
    s4: "toDropoffLoop route config v (pickupOperation route v s2) = Some s4" and
    evs: "evs = emitted (endOfDayPad tz route v (postTrip route v (dropoffOperation route v s4)))"
    by (rule generateDutyEvents_parts)
  have m2: "milestones (emitted s2) = [Pre_trip_Inspection]"
  proof (rule toPickup_rule [OF s2, where P = "\<lambda>s. milestones (emitted s) = [Pre_trip_Inspection]"])
    show "milestones (emitted (preTrip tz route startTime v)) = [Pre_trip_Inspection]"
      by (rule milestones_preTrip)
  qed (simp_all add: milestones_def takeBreak_def driveToPickup_def Let_def addEvent_sel)
  have m3: "milestones (emitted (pickupOperation route v s2)) =
            [Pre_trip_Inspection, Pickup_Loading]"
    using m2 by (simp add: milestones_def pickupOperation_def Let_def addEvent_sel)
  have m4: "milestones (emitted s4) = [Pre_trip_Inspection, Pickup_Loading]"
    by (rule toDropoffLoop_rule [OF s4,
          where P = "\<lambda>s. milestones (emitted s) = [Pre_trip_Inspection, Pickup_Loading]"])
       (simp_all add: m3 milestones_toDropoffStep)
  show ?thesis
    using m4 unfolding evs
    by (simp add: milestones_def endOfDayPad_def postTrip_def dropoffOperation_def Let_def
          addEvent_sel)
qed

text \<open>
  C4, amended. Nothing is validated and nothing is raised. For a speed of 0 or below, and
  for every route (negative distances and durations included), start time and profile,
  whenever \<open>generateDutyEvents\<close> returns, the list is complete: it has exactly one
  pre-trip inspection, one pickup, one dropoff and one post-trip inspection, in this
  order, and no event is a fueling stop.
\<close>

theorem no_validation:
  assumes v: "averageSpeed \<le> 0"
    and gen: "generateDutyEvents tz route startTime config averageSpeed = Some evs"
  shows "milestones evs =
           [Pre_trip_Inspection, Pickup_Loading, Dropoff_Unloading, Post_trip_Inspection] \<and>
         (\<forall>e \<in> set evs. remarks e \<noteq> Fueling_Stop)"
proof -
  from gen obtain s2 s4 where
    s2: "toPickup route config averageSpeed (preTrip tz route startTime averageSpeed) = Some s2" and
    s4: "toDropoffLoop route config averageSpeed (pickupOperation route averageSpeed s2) = Some s4" and
    evs: "evs = emitted (endOfDayPad tz route averageSpeed
            (postTrip route averageSpeed (dropoffOperation route averageSpeed s4)))"
    by (rule generateDutyEvents_parts)
  have n2: "noFuelStop s2"
    by (rule toPickup_rule [OF s2, where P = noFuelStop])
       (simp_all add: noFuelStop_preTrip noFuelStop_takeBreak noFuelStop_driveToPickup v)
  have n4: "noFuelStop s4"
    by (rule toDropoffLoop_rule [OF s4, where P = noFuelStop])
       (simp_all add: n2 noFuelStop_pickupOperation noFuelStop_toDropoffStep v)
  from noFuelStop_tail [OF n4] have "\<forall>e \<in> set evs. remarks e \<noteq> Fueling_Stop"
    by (simp add: noFuelStop_def evs list_all_iff)
  with milestones_generate [OF gen] show ?thesis ..
qed

theorem no_validation_witness:
  "\<exists>evs. (0::real) \<le> 0 \<and>
     generateDutyEvents 0 shortTrip (march_1_2024 + clock 8 0)
       HOS_PROFILE_CONFIG_PROPERTY_CARRYING_US_FMCSA 0 = Some evs \<and>
     milestones evs =
       [Pre_trip_Inspection, Pickup_Loading, Dropoff_Unloading, Post_trip_Inspection] \<and>
     (\<forall>e \<in> set evs. remarks e \<noteq> Fueling_Stop)"
proof -
  have "\<exists>evs. generateDutyEvents 0 shortTrip (march_1_2024 + clock 8 0)
            HOS_PROFILE_CONFIG_PROPERTY_CARRYING_US_FMCSA 0 = Some evs"
    by (simp add: generateDutyEvents_def toPickup_def sched_defs shortTrip_hours loop_unroll
          HOS_PROFILE_CONFIG_PROPERTY_CARRYING_US_FMCSA_def march_1_2024_def clock_def)
  then obtain evs where
    gen: "generateDutyEvents 0 shortTrip (march_1_2024 + clock 8 0)
            HOS_PROFILE_CONFIG_PROPERTY_CARRYING_US_FMCSA 0 = Some evs" ..
  have z: "(0::real) \<le> 0" by simp
  from no_validation [OF z gen] gen z show ?thesis by blast
qed

end
